theory Spec2Isabelle
  imports Main "HOL-Library.Word"
begin

section \<open>Jagged nested tensors: \<open>torch/nested/_internal/nested_tensor.py\<close>\<close>

text \<open>
  A shallow embedding of the module. Python objects that are compared by identity (dense
  tensors used as registry keys, wrappers) carry an object id; the two module globals
  \<open>_tensor_id_counter\<close> and \<open>_tensor_symint_registry\<close> are fields of an explicit state
  that every function takes and returns; every \<open>raise\<close>, failed \<open>assert\<close> and failed
  subscript is a value \<open>Inl (Exn class argument)\<close>.
\<close>

subsection \<open>Values\<close>

text \<open>A raised exception: the name of its Python class and its argument as text.\<close>

datatype exn = Exn (exn_class: string) (exn_arg: string)

datatype dtype = Float32 | Float64 | Int32 | Int64 | Bool

datatype device = CPU | CUDA nat | Meta

text \<open>
  A size-like value: a plain Python \<open>int\<close>; a singleton (ragged) symbolic int with its
  identity \<open>val\<close> and its multiplicative coefficient; or a symbolic expression over free
  symbols, as the sizes of a placeholder tensor are.
\<close>

datatype symint =
    IntVal int
  | Singleton int int
  | SymVar string
  | SymAdd symint symint
  | SymMul symint symint

text \<open>
  A dense \<open>torch.Tensor\<close>: its object identity, shape, stride, dtype, device, and its
  elements when it is a rank-1 int64 tensor (the elements of other tensors play no role in
  this module and are left empty). The entries of shape and stride are plain ints for a
  concrete tensor and symbolic for a placeholder.
\<close>

record dense =
  t_id :: nat
  t_shape :: "symint list"
  t_stride :: "symint list"
  t_dtype :: dtype
  t_device :: device
  t_data :: "64 word list"

text \<open>
  A \<open>NestedTensor\<close> object. \<open>__new__\<close> fixes identity, dtype, device and
  \<open>requires_grad\<close>; the five attributes that \<open>__init__\<close> assigns are absent (\<open>None\<close>)
  until their assignment runs. The attribute that \<open>__init__\<close> assigns is \<open>_strides\<close>.
\<close>

record nested =
  nt_id :: nat
  nt_requires_grad :: bool
  nt_dtype :: dtype
  nt_device :: device
  nt_size :: "symint list option"
  nt_strides :: "symint list option"
  nt_ragged_idx :: "int option"
  nt_values :: "dense option"
  nt_offsets :: "dense option"

text \<open>What a caller may pass where a tensor is expected: a dense tensor or a wrapper.\<close>

datatype tensor_arg = Plain dense | Wrapper nested

text \<open>
  The interpreter state the module touches: the two module globals (the registry is keyed
  by tensor identity), the next free object id, and the flag that
  \<open>torch._C.DisableTorchFunctionSubclass\<close> clears.
\<close>

record state =
  tensor_id_counter :: int
  tensor_symint_registry :: "nat \<rightharpoonup> symint"
  next_tid :: nat
  torch_function_subclass_enabled :: bool

definition initial_state :: state where
  "initial_state =
     \<lparr>tensor_id_counter = 0, tensor_symint_registry = Map.empty, next_tid = 0,
      torch_function_subclass_enabled = True\<rparr>"

definition AssertionError :: exn where
  "AssertionError = Exn ''AssertionError'' ''''"

definition IndexError :: exn where
  "IndexError = Exn ''IndexError'' ''''"

definition KeyError :: "string \<Rightarrow> exn" where
  "KeyError k = Exn ''KeyError'' k"

definition AttributeError :: "string \<Rightarrow> exn" where
  "AttributeError a = Exn ''AttributeError'' a"

definition RuntimeError :: "string \<Rightarrow> exn" where
  "RuntimeError msg = Exn ''RuntimeError'' msg"

text \<open>Subscripting a tuple or list with an int; an index below zero is taken from the end.\<close>

definition py_index :: "'a list \<Rightarrow> int \<Rightarrow> exn + 'a" where
  "py_index xs i =
     (if 0 \<le> i \<and> i < int (length xs) then Inr (xs ! nat i)
      else if - int (length xs) \<le> i \<and> i < 0 then Inr (xs ! nat (int (length xs) + i))
      else Inl IndexError)"

subsection \<open>Symbolic ints\<close>

text \<open>
  Modelled from the spec: \<open>torch._C._get_singleton_int(val, coeff)\<close> is not in this
  file. It mints the symbol whose identity seed is \<open>val\<close>, tagged with \<open>coeff\<close>.
\<close>

definition get_singleton_int :: "int \<Rightarrow> int \<Rightarrow> symint" where
  "get_singleton_int v coeff = Singleton v coeff"

text \<open>
  Modelled from the spec: the arithmetic of size-like values (\<open>offsets.shape[0] - 1\<close>,
  \<open>ragged_size * stride[0]\<close>, and the sums and products the tensor library forms) is
  computed by the symbolic-int type, which is not in this file. On plain ints it is integer
  arithmetic; a singleton symbol scaled by a plain int keeps its identity and multiplies
  its coefficient; every other combination is the symbolic expression of the operation.
\<close>

definition symint_sub :: "symint \<Rightarrow> int \<Rightarrow> symint" where
  "symint_sub x k = (case x of IntVal a \<Rightarrow> IntVal (a - k) | _ \<Rightarrow> SymAdd x (IntVal (- k)))"

definition symint_add :: "symint \<Rightarrow> symint \<Rightarrow> symint" where
  "symint_add x y =
     (case x of
        IntVal a \<Rightarrow> (case y of IntVal b \<Rightarrow> IntVal (a + b) | _ \<Rightarrow> SymAdd x y)
      | _ \<Rightarrow> SymAdd x y)"

definition symint_mul :: "symint \<Rightarrow> symint \<Rightarrow> symint" where
  "symint_mul x y =
     (case x of
        IntVal a \<Rightarrow> (case y of IntVal b \<Rightarrow> IntVal (a * b) | _ \<Rightarrow> SymMul x y)
      | Singleton v c \<Rightarrow> (case y of IntVal k \<Rightarrow> Singleton v (c * k) | _ \<Rightarrow> SymMul x y)
      | _ \<Rightarrow> SymMul x y)"

text \<open>
  Modelled from the spec: \<open>has_free_symbols\<close> of \<open>torch.fx.experimental.symbolic_shapes\<close>
  is not in this file. A tensor has free symbols when its shape or its stride mentions a
  free symbol, that is, when the tensor is a placeholder for a shape that is not concrete
  yet. A singleton symbol is not a free symbol.
\<close>

fun symint_free_symbols :: "symint \<Rightarrow> bool" where
  "symint_free_symbols (IntVal a) = False"
| "symint_free_symbols (Singleton v c) = False"
| "symint_free_symbols (SymVar x) = True"
| "symint_free_symbols (SymAdd a b) = (symint_free_symbols a \<or> symint_free_symbols b)"
| "symint_free_symbols (SymMul a b) = (symint_free_symbols a \<or> symint_free_symbols b)"

definition has_free_symbols :: "dense \<Rightarrow> bool" where
  "has_free_symbols t =
     (list_ex symint_free_symbols (t_shape t) \<or> list_ex symint_free_symbols (t_stride t))"

subsection \<open>The registry\<close>

text \<open>
  \<open>get_tensor_symint(tensor, *, coeff=1)\<close>. The final subscript
  \<open>_tensor_symint_registry[tensor]\<close> raises \<open>KeyError\<close> on a missing key.
\<close>

definition get_tensor_symint :: "dense \<Rightarrow> int \<Rightarrow> state \<Rightarrow> (exn + symint) \<times> state" where
  "get_tensor_symint tensor coeff s =
     (let s1 =
        (if tensor_symint_registry s (t_id tensor) = None
         then
           (let s' = s\<lparr>tensor_symint_registry :=
                        (tensor_symint_registry s)
                          (t_id tensor \<mapsto> get_singleton_int (tensor_id_counter s) coeff)\<rparr>
            in s'\<lparr>tensor_id_counter := tensor_id_counter s' + 1\<rparr>)
         else s)
      in case tensor_symint_registry s1 (t_id tensor) of
           None \<Rightarrow> (Inl (KeyError ''tensor''), s1)
         | Some symb \<Rightarrow> (Inr symb, s1))"

text \<open>A run of resolve calls, each \<open>(tensor, coeff)\<close>, in order; results are dropped.\<close>

fun resolve_all :: "(dense \<times> int) list \<Rightarrow> state \<Rightarrow> state" where
  "resolve_all [] s = s"
| "resolve_all (c # cs) s = resolve_all cs (snd (get_tensor_symint (fst c) (snd c) s))"

text \<open>
  What resolve calls alone maintain of the registry: every stored value is a singleton
  whose identity is below the counter, and no two keys share a stored value.
\<close>

definition registry_inv :: "state \<Rightarrow> bool" where
  "registry_inv s \<longleftrightarrow>
     (\<forall>k y. tensor_symint_registry s k = Some y \<longrightarrow>
        (\<exists>v c. y = Singleton v c \<and> v < tensor_id_counter s)) \<and>
     (\<forall>k1 k2 y. tensor_symint_registry s k1 = Some y \<and> tensor_symint_registry s k2 = Some y
        \<longrightarrow> k1 = k2)"

subsection \<open>Construction of a wrapper\<close>

definition arg_dtype :: "tensor_arg \<Rightarrow> dtype" where
  "arg_dtype a = (case a of Plain t \<Rightarrow> t_dtype t | Wrapper w \<Rightarrow> nt_dtype w)"

definition arg_device :: "tensor_arg \<Rightarrow> device" where
  "arg_device a = (case a of Plain t \<Rightarrow> t_device t | Wrapper w \<Rightarrow> nt_device w)"

definition is_floating_point :: "dtype \<Rightarrow> bool" where
  "is_floating_point dt = (dt = Float32 \<or> dt = Float64)"

definition msg_requires_grad :: string where
  "msg_requires_grad = ''Only Tensors of floating point and complex dtype can require gradients''"

text \<open>
  \<open>NestedTensor.__new__(cls, values, offsets, **kwargs)\<close>: a fresh wrapper object with
  the dtype and device of \<open>values\<close> and \<open>kwargs.get("requires_grad", False)\<close>. The only
  key of \<open>kwargs\<close> that is read is \<open>requires_grad\<close>, so \<open>kwargs\<close> is that key's value
  when present.

  Modelled from the spec: \<open>torch.Tensor._make_wrapper_subclass\<close>, which \<open>__new__\<close>
  calls, is not in this file. It allocates the wrapper object; as every tensor constructor
  of the library does, it raises \<open>RuntimeError\<close>, and allocates nothing, when
  \<open>requires_grad\<close> is asked of a dtype that is not floating point.
\<close>

definition NestedTensor_new ::
  "tensor_arg \<Rightarrow> dense option \<Rightarrow> bool option \<Rightarrow> state \<Rightarrow> (exn + nested) \<times> state" where
  "NestedTensor_new values offsets kwargs s =
     (let requires_grad = (case kwargs of None \<Rightarrow> False | Some b \<Rightarrow> b)
      in if requires_grad \<and> \<not> is_floating_point (arg_dtype values)
         then (Inl (RuntimeError msg_requires_grad), s)
         else
           (Inr \<lparr>nt_id = next_tid s,
                 nt_requires_grad = requires_grad,
                 nt_dtype = arg_dtype values,
                 nt_device = arg_device values,
                 nt_size = None, nt_strides = None, nt_ragged_idx = None,
                 nt_values = None, nt_offsets = None\<rparr>,
            s\<lparr>next_tid := next_tid s + 1\<rparr>))"

text \<open>
  \<open>NestedTensor.__init__(self, values, offsets, **kwargs)\<close>, statement by statement. The
  result is the exception raised (if any), the object as the statements run so far left
  it, and the state.
\<close>

definition NestedTensor_init ::
  "nested \<Rightarrow> tensor_arg \<Rightarrow> dense option \<Rightarrow> state \<Rightarrow> exn option \<times> nested \<times> state" where
  "NestedTensor_init self values offsets s =
     (case offsets of
        None \<Rightarrow> (Some AssertionError, self, s)
      | Some off \<Rightarrow>
          if length (t_shape off) \<noteq> 1 then (Some AssertionError, self, s)
          else
            (case values of
               Wrapper w \<Rightarrow> (Some AssertionError, self, s)
             | Plain v \<Rightarrow>
                 (case get_tensor_symint off 1 s of
                    (Inl e, s1) \<Rightarrow> (Some e, self, s1)
                  | (Inr ragged_size, s1) \<Rightarrow>
                      (case py_index (t_shape off) 0 of
                         Inl e \<Rightarrow> (Some e, self, s1)
                       | Inr n \<Rightarrow>
                           (let B = symint_sub n 1;
                                Ds = drop 1 (t_shape v);
                                self1 = self\<lparr>nt_size := Some (B # ragged_size # Ds)\<rparr>;
                                stride = t_stride v
                            in case py_index stride 0 of
                                 Inl e \<Rightarrow> (Some e, self1, s1)
                               | Inr stride0 \<Rightarrow>
                                   (let self2 = self1\<lparr>nt_strides :=
                                                  Some (symint_mul ragged_size stride0 # stride)\<rparr>;
                                        self3 = self2\<lparr>nt_ragged_idx := Some 1\<rparr>;
                                        self4 = self3\<lparr>nt_values := Some v\<rparr>;
                                        self5 = self4\<lparr>nt_offsets := Some off\<rparr>
                                    in (None, self5, s1)))))))"

text \<open>The call \<open>NestedTensor(values, offsets, **kwargs)\<close>: \<open>__new__\<close>, then \<open>__init__\<close>.\<close>

definition NestedTensor :: "tensor_arg \<Rightarrow> dense option \<Rightarrow> bool option \<Rightarrow> state \<Rightarrow> (exn + nested) \<times> state" where
  "NestedTensor values offsets kwargs s =
     (case NestedTensor_new values offsets kwargs s of
        (Inl e, s0) \<Rightarrow> (Inl e, s0)
      | (Inr r, s0) \<Rightarrow>
          (case NestedTensor_init r values offsets s0 of
             (Some e, r', s1) \<Rightarrow> (Inl e, s1)
           | (None, r', s1) \<Rightarrow> (Inr r', s1)))"

text \<open>
  The stride the specification's formula gives, for comparison with the one
  \<open>__init__\<close> assigns: \<open>(symbol * values.stride[0], *values.stride[1:])\<close>.
\<close>

definition spec_logical_stride :: "symint \<Rightarrow> dense \<Rightarrow> symint list" where
  "spec_logical_stride symb v = symint_mul symb (hd (t_stride v)) # drop 1 (t_stride v)"

text \<open>
  A fully initialised wrapper that agrees with the registry of the state: all five
  attributes are set as \<open>__init__\<close> sets them, from the symbol the registry holds for the
  wrapper's offsets, and dtype, device and \<open>requires_grad\<close> are as \<open>__new__\<close> admits
  them.
\<close>

definition wrapper_inv :: "state \<Rightarrow> nested \<Rightarrow> bool" where
  "wrapper_inv s w =
     (case (nt_values w, nt_offsets w) of
        (Some v, Some off) \<Rightarrow>
          (case (t_shape off, t_stride v, tensor_symint_registry s (t_id off)) of
             ([n], stride0 # rest, Some symb) \<Rightarrow>
               nt_size w = Some (symint_sub n 1 # symb # drop 1 (t_shape v)) \<and>
               nt_strides w = Some (symint_mul symb stride0 # stride0 # rest) \<and>
               nt_ragged_idx w = Some 1 \<and>
               nt_dtype w = t_dtype v \<and> nt_device w = t_device v \<and>
               (if nt_requires_grad w then is_floating_point (t_dtype v) else True)
           | _ \<Rightarrow> False)
      | _ \<Rightarrow> False)"

subsection \<open>Differentiable extraction of the values\<close>

text \<open>\<open>NestedTensor.offsets(self)\<close>: reading an attribute that is not set raises.\<close>

definition NestedTensor_offsets :: "nested \<Rightarrow> exn + dense" where
  "NestedTensor_offsets self =
     (case nt_offsets self of None \<Rightarrow> Inl (AttributeError ''_offsets'') | Some off \<Rightarrow> Inr off)"

text \<open>The context object of an autograd function: what \<open>save_for_backward\<close> stored.\<close>

record fn_ctx =
  saved_tensors :: "dense list"

definition DifferentiableValues_forward :: "fn_ctx \<Rightarrow> nested \<Rightarrow> (exn + dense) \<times> fn_ctx" where
  "DifferentiableValues_forward ctx x =
     (case NestedTensor_offsets x of
        Inl e \<Rightarrow> (Inl e, ctx)
      | Inr off \<Rightarrow>
          (let ctx1 = ctx\<lparr>saved_tensors := [off]\<rparr>
           in case nt_values x of
                None \<Rightarrow> (Inl (AttributeError ''_values''), ctx1)
              | Some v \<Rightarrow> (Inr v, ctx1)))"

text \<open>
  \<open>backward(ctx, gO)\<close>: the unpacking \<open>(offsets,) = ctx.saved_tensors\<close> raises
  \<open>ValueError\<close> unless exactly one tensor was saved.
\<close>

definition DifferentiableValues_backward :: "fn_ctx \<Rightarrow> tensor_arg \<Rightarrow> state \<Rightarrow> (exn + nested) \<times> state" where
  "DifferentiableValues_backward ctx gO s =
     (case saved_tensors ctx of
        [offsets] \<Rightarrow> NestedTensor gO (Some offsets) None s
      | _ \<Rightarrow> (Inl (Exn ''ValueError'' ''unpack''), s))"

text \<open>
  Modelled from the spec: \<open>torch.autograd.Function.apply\<close> is not in this file. It runs
  \<open>forward\<close> on a fresh context, which it keeps for the later \<open>backward\<close>.
  \<open>NestedTensor.values(self)\<close> is \<open>DifferentiableValues.apply(self)\<close>.
\<close>

definition NestedTensor_values :: "nested \<Rightarrow> (exn + dense) \<times> fn_ctx" where
  "NestedTensor_values self = DifferentiableValues_forward \<lparr>saved_tensors = []\<rparr> self"

subsection \<open>Flatten and unflatten\<close>

text \<open>
  The context dictionary of \<open>__tensor_flatten__\<close>, with its two keys \<open>requires_grad\<close>
  and \<open>ragged_size\<close>; a key may be missing from a dictionary a caller hands to
  \<open>__tensor_unflatten__\<close>.
\<close>

record flatten_ctx =
  m_requires_grad :: "bool option"
  m_ragged_size :: "symint option"

definition tensor_flatten :: "nested \<Rightarrow> exn + (string list \<times> flatten_ctx)" where
  "tensor_flatten self =
     (case nt_size self of
        None \<Rightarrow> Inl (AttributeError ''_size'')
      | Some sz \<Rightarrow>
          (case nt_ragged_idx self of
             None \<Rightarrow> Inl (AttributeError ''_ragged_idx'')
           | Some i \<Rightarrow>
               (case py_index sz i of
                  Inl e \<Rightarrow> Inl e
                | Inr rs \<Rightarrow>
                    Inr ([''_values'', ''_offsets''],
                         \<lparr>m_requires_grad = Some (nt_requires_grad self),
                          m_ragged_size = Some rs\<rparr>))))"

text \<open>
  \<open>__tensor_unflatten__(inner_tensors, meta)\<close>. The dictionary \<open>inner_tensors\<close> is an
  association list with distinct keys, so \<open>len\<close> is its length.
\<close>

definition tensor_unflatten ::
  "(string \<times> dense) list \<Rightarrow> flatten_ctx \<Rightarrow> state \<Rightarrow> (exn + nested) \<times> state" where
  "tensor_unflatten inner_tensors meta s =
     (if length inner_tensors \<noteq> 2 then (Inl AssertionError, s)
      else
        (case map_of inner_tensors ''_values'' of
           None \<Rightarrow> (Inl (KeyError ''_values''), s)
         | Some values \<Rightarrow>
             (case map_of inner_tensors ''_offsets'' of
                None \<Rightarrow> (Inl (KeyError ''_offsets''), s)
              | Some offsets \<Rightarrow>
                  (case (if has_free_symbols offsets \<or> has_free_symbols values
                         then (case m_ragged_size meta of
                                 None \<Rightarrow> Inl (KeyError ''ragged_size'')
                               | Some rs \<Rightarrow>
                                   Inr (s\<lparr>tensor_symint_registry :=
                                           (tensor_symint_registry s)(t_id offsets \<mapsto> rs)\<rparr>))
                         else Inr s) of
                     Inl e \<Rightarrow> (Inl e, s)
                   | Inr s1 \<Rightarrow>
                       (case m_requires_grad meta of
                          None \<Rightarrow> (Inl (KeyError ''requires_grad''), s1)
                        | Some rg \<Rightarrow> NestedTensor (Plain values) (Some offsets) (Some rg) s1)))))"

text \<open>\<open>getattr(self, name)\<close> for the two attributes that \<open>__tensor_flatten__\<close> names.\<close>

definition nt_getattr :: "nested \<Rightarrow> string \<Rightarrow> exn + dense" where
  "nt_getattr self name =
     (if name = ''_values'' then
        (case nt_values self of None \<Rightarrow> Inl (AttributeError name) | Some v \<Rightarrow> Inr v)
      else if name = ''_offsets'' then
        (case nt_offsets self of None \<Rightarrow> Inl (AttributeError name) | Some v \<Rightarrow> Inr v)
      else Inl (AttributeError name))"

fun inner_tensors_of :: "nested \<Rightarrow> string list \<Rightarrow> exn + (string \<times> dense) list" where
  "inner_tensors_of self [] = Inr []"
| "inner_tensors_of self (a # as) =
     (case nt_getattr self a of
        Inl e \<Rightarrow> Inl e
      | Inr t \<Rightarrow>
          (case inner_tensors_of self as of
             Inl e \<Rightarrow> Inl e
           | Inr rest \<Rightarrow> Inr ((a, t) # rest)))"

text \<open>
  Modelled from the spec: the caller of the two hooks is not in this file. The round trip
  flattens a wrapper, reads the attributes that the flattening names, and hands them with
  the context to \<open>__tensor_unflatten__\<close>.
\<close>

definition flatten_unflatten :: "nested \<Rightarrow> state \<Rightarrow> (exn + nested) \<times> state" where
  "flatten_unflatten w s =
     (case tensor_flatten w of
        Inl e \<Rightarrow> (Inl e, s)
      | Inr (attrs, ctx) \<Rightarrow>
          (case inner_tensors_of w attrs of
             Inl e \<Rightarrow> (Inl e, s)
           | Inr inner \<Rightarrow> tensor_unflatten inner ctx s))"

subsection \<open>Dispatch\<close>

type_synonym args = "tensor_arg list"
type_synonym kwargs = "(string \<times> tensor_arg) list"
type_synonym 'r rule = "args \<Rightarrow> kwargs \<Rightarrow> state \<Rightarrow> (exn + 'r) \<times> state"

text \<open>An operation \<open>func\<close>: its name and what calling it does.\<close>

datatype 'r op = Op (op_name: string) (op_call: "'r rule")

text \<open>
  \<open>NestedTensor.__torch_dispatch__(cls, func, types, args, kwargs)\<close>. The rule table
  \<open>lookup_jagged\<close> of \<open>.ops\<close> is not in this file and is a parameter.
\<close>

definition torch_dispatch ::
  "('r op \<Rightarrow> args \<Rightarrow> kwargs \<Rightarrow> 'r rule option) \<Rightarrow> 'r op \<Rightarrow> args \<Rightarrow> kwargs option \<Rightarrow> state
     \<Rightarrow> (exn + 'r) \<times> state" where
  "torch_dispatch lookup_jagged func args kwargs s =
     (let kwargs1 = (case kwargs of None \<Rightarrow> [] | Some kw \<Rightarrow> kw)
      in case lookup_jagged func args kwargs1 of
           Some fn \<Rightarrow> fn args kwargs1 s
         | None \<Rightarrow> (Inl (Exn ''NotImplementedError'' (op_name func)), s))"

text \<open>
  \<open>NestedTensor.__torch_function__(cls, func, types, args, kwargs)\<close>. The rule
  \<open>jagged_torch_function\<close> of \<open>.ops\<close> is not in this file and is a parameter. The
  \<open>with\<close> block clears the interception flag for the call of \<open>func\<close> and restores it
  on exit, also when the call raises.
\<close>

definition torch_function ::
  "('r op \<Rightarrow> 'r rule) \<Rightarrow> 'r op \<Rightarrow> args \<Rightarrow> kwargs option \<Rightarrow> state \<Rightarrow> (exn + 'r) \<times> state" where
  "torch_function jagged_torch_function func args kwargs s =
     (let kwargs1 = (case kwargs of None \<Rightarrow> [] | Some kw \<Rightarrow> kw)
      in case jagged_torch_function func args kwargs1 s of
           (Inr r, s1) \<Rightarrow> (Inr r, s1)
         | (Inl e, s1) \<Rightarrow>
             if exn_class e = ''NotImplementedError'' then
               (let prev = torch_function_subclass_enabled s1
                in case op_call func args kwargs1 (s1\<lparr>torch_function_subclass_enabled := False\<rparr>) of
                     (r, s2) \<Rightarrow> (r, s2\<lparr>torch_function_subclass_enabled := prev\<rparr>))
             else (Inl e, s1))"

subsection \<open>Tensor primitives used by the construction helper\<close>

text \<open>
  The tensor library calls that \<open>jagged_from_list\<close> and the module's last statement make
  (\<open>torch.cat\<close>, \<open>Tensor.to\<close>, \<open>torch.zeros\<close>, \<open>torch.tensor\<close>, \<open>Tensor.cumsum\<close>,
  \<open>torch.randn\<close>) are not in this file; each is modelled below. Each result is a new
  tensor object, with a fresh identity, of the shape, dtype and device the call asks for;
  int64 arithmetic wraps around.
\<close>

fun symint_sum :: "symint list \<Rightarrow> symint" where
  "symint_sum [] = IntVal 0"
| "symint_sum (x # xs) = symint_add x (symint_sum xs)"

fun symint_prod :: "symint list \<Rightarrow> symint" where
  "symint_prod [] = IntVal 1"
| "symint_prod (x # xs) = symint_mul x (symint_prod xs)"

definition clamp_dim :: "symint \<Rightarrow> symint" where
  "clamp_dim x = (case x of IntVal a \<Rightarrow> IntVal (max 1 a) | _ \<Rightarrow> x)"

text \<open>
  Modelled from the spec: the strides of a freshly allocated dense array are not computed
  in this file. They are those of the row-major layout.
\<close>

fun contiguous_stride :: "symint list \<Rightarrow> symint list" where
  "contiguous_stride [] = []"
| "contiguous_stride (d # ds) = symint_prod (map clamp_dim ds) # contiguous_stride ds"

text \<open>\<open>[s[0] for s in sizes]\<close>: the subscript raises on an empty shape.\<close>

fun first_sizes :: "symint list list \<Rightarrow> exn + symint list" where
  "first_sizes [] = Inr []"
| "first_sizes (sz # rest) =
     (case py_index sz 0 of
        Inl e \<Rightarrow> Inl e
      | Inr n \<Rightarrow> (case first_sizes rest of Inl e \<Rightarrow> Inl e | Inr ns \<Rightarrow> Inr (n # ns)))"

text \<open>
  Modelled from the spec: \<open>torch.cat(tensors, dim=0)\<close> is not in this file. It is the
  elements concatenated along the leading axis; the result has the summed leading length
  and the first element's trailing shape, dtype and device. An empty list, or an element
  of rank 0, is refused.
\<close>

definition torch_cat :: "dense list \<Rightarrow> state \<Rightarrow> (exn + dense) \<times> state" where
  "torch_cat tensors s =
     (case tensors of
        [] \<Rightarrow> (Inl (RuntimeError ''torch.cat(): expected a non-empty list of Tensors''), s)
      | t0 # _ \<Rightarrow>
          (case first_sizes (map t_shape tensors) of
             Inl e \<Rightarrow> (Inl (RuntimeError ''zero-dimensional tensor cannot be concatenated''), s)
           | Inr lens \<Rightarrow>
               (let shp = symint_sum lens # drop 1 (t_shape t0)
                in (Inr \<lparr>t_id = next_tid s, t_shape = shp, t_stride = contiguous_stride shp,
                         t_dtype = t_dtype t0, t_device = t_device t0,
                         t_data = concat (map t_data tensors)\<rparr>,
                    s\<lparr>next_tid := next_tid s + 1\<rparr>))))"

text \<open>
  Modelled from the spec: \<open>values.to(**to_kwargs)\<close> is not in this file. It applies the
  requested dtype and device conversion: the tensor itself when nothing changes, else a
  copy with the requested device and dtype.
\<close>

definition tensor_to :: "dense \<Rightarrow> device option \<Rightarrow> dtype option \<Rightarrow> state \<Rightarrow> dense \<times> state" where
  "tensor_to t dev dt s =
     (let dev1 = (case dev of None \<Rightarrow> t_device t | Some d \<Rightarrow> d);
          dt1 = (case dt of None \<Rightarrow> t_dtype t | Some d \<Rightarrow> d)
      in if dev1 = t_device t \<and> dt1 = t_dtype t then (t, s)
         else (t\<lparr>t_id := next_tid s, t_device := dev1, t_dtype := dt1\<rparr>,
               s\<lparr>next_tid := next_tid s + 1\<rparr>))"

text \<open>
  Modelled from the spec: \<open>torch.zeros(1, dtype=dt, device=dev)\<close> is not in this file.
  It is the rank-1 tensor holding one zero.
\<close>

definition torch_zeros1 :: "dtype \<Rightarrow> device \<Rightarrow> state \<Rightarrow> dense \<times> state" where
  "torch_zeros1 dt dev s =
     (\<lparr>t_id = next_tid s, t_shape = [IntVal 1], t_stride = [IntVal 1], t_dtype = dt,
       t_device = dev, t_data = [0]\<rparr>,
      s\<lparr>next_tid := next_tid s + 1\<rparr>)"

text \<open>The plain ints of a list of size-like values, when every entry is a plain int.\<close>

fun concrete_ints :: "symint list \<Rightarrow> int list option" where
  "concrete_ints [] = Some []"
| "concrete_ints (x # xs) =
     (case x of
        IntVal a \<Rightarrow> (case concrete_ints xs of None \<Rightarrow> None | Some ns \<Rightarrow> Some (a # ns))
      | _ \<Rightarrow> None)"

text \<open>
  Modelled from the spec: \<open>torch.tensor(xs, device=dev)\<close> is not in this file. On a
  list of Python ints it is a rank-1 tensor of 64-bit integers (of the default float dtype
  when the list is empty); a list with an entry that is not a plain int is refused.
\<close>

definition torch_tensor :: "symint list \<Rightarrow> device \<Rightarrow> state \<Rightarrow> (exn + dense) \<times> state" where
  "torch_tensor xs dev s =
     (case concrete_ints xs of
        None \<Rightarrow> (Inl (RuntimeError ''torch.tensor(): not a sequence of ints''), s)
      | Some ns \<Rightarrow>
          (Inr \<lparr>t_id = next_tid s, t_shape = [IntVal (int (length ns))], t_stride = [IntVal 1],
                t_dtype = (if ns = [] then Float32 else Int64), t_device = dev,
                t_data = map word_of_int ns\<rparr>,
           s\<lparr>next_tid := next_tid s + 1\<rparr>))"

text \<open>The running sums of a list of 64-bit integers, from an accumulator; \<open>+\<close> wraps.\<close>

fun running_sums :: "64 word \<Rightarrow> 64 word list \<Rightarrow> 64 word list" where
  "running_sums acc [] = []"
| "running_sums acc (x # xs) = (acc + x) # running_sums (acc + x) xs"

text \<open>
  Modelled from the spec: \<open>t.cumsum(dim=0)\<close> is not in this file. On a rank-1 integer
  tensor it is the tensor of the running sums, as 64-bit integers.
\<close>

definition tensor_cumsum :: "dense \<Rightarrow> state \<Rightarrow> dense \<times> state" where
  "tensor_cumsum t s =
     (t\<lparr>t_id := next_tid s, t_dtype := (if t_dtype t = Float32 \<or> t_dtype t = Float64 then t_dtype t else Int64),
        t_data := running_sums 0 (t_data t)\<rparr>,
      s\<lparr>next_tid := next_tid s + 1\<rparr>)"

text \<open>
  Modelled from the spec: \<open>torch.randn(*size, device=dev)\<close> is not in this file. It is
  a float tensor of the given shape; its elements play no role.
\<close>

definition torch_randn :: "int list \<Rightarrow> device \<Rightarrow> state \<Rightarrow> dense \<times> state" where
  "torch_randn sz dev s =
     (\<lparr>t_id = next_tid s, t_shape = map IntVal sz, t_stride = contiguous_stride (map IntVal sz),
       t_dtype = Float32, t_device = dev, t_data = []\<rparr>,
      s\<lparr>next_tid := next_tid s + 1\<rparr>)"

subsection \<open>The construction helper\<close>

text \<open>
  Modelled from the spec: \<open>torch._nested_view_from_values_offsets\<close> reaches its rule
  through the dispatcher, and the rule is not in this file. It returns the wrapper
  constructed from \<open>values\<close> and \<open>offsets\<close>.
\<close>

definition nested_view_from_values_offsets :: "dense \<Rightarrow> dense \<Rightarrow> state \<Rightarrow> (exn + nested) \<times> state" where
  "nested_view_from_values_offsets values offsets s = NestedTensor (Plain values) (Some offsets) None s"

definition msg_same_dtype :: string where
  "msg_same_dtype = ''When constructing a nested tensor, all tensors in list must have the same dtype''"

definition msg_same_device :: string where
  "msg_same_device = ''When constructing a nested tensor, all tensors in list must be on the same device''"

definition msg_not_jagged :: string where
  "msg_not_jagged = ''Cannot represent given tensor list as a nested tensor with the jagged layout. Note that the jagged layout only represents shapes of the form (B, *, D_0, D_1, ..., D_N), with only * allowed to be ragged.''"

text \<open>
  \<open>all(s == non_first_sizes[0] for s in non_first_sizes)\<close>: on an empty list nothing is
  evaluated and the result is \<open>True\<close>.
\<close>

definition at_most_first_ragged :: "symint list list \<Rightarrow> bool" where
  "at_most_first_ragged non_first_sizes =
     (case non_first_sizes of [] \<Rightarrow> True | nf0 # _ \<Rightarrow> list_all (\<lambda>sz. sz = nf0) non_first_sizes)"

text \<open>The last statement of \<open>jagged_from_list\<close>: the view and the offsets, as a pair.\<close>

definition return_view :: "dense \<Rightarrow> dense \<Rightarrow> state \<Rightarrow> (exn + nested \<times> dense) \<times> state" where
  "return_view values offsets s =
     (case nested_view_from_values_offsets values offsets s of
        (Inl e, s1) \<Rightarrow> (Inl e, s1)
      | (Inr nt, s1) \<Rightarrow> (Inr (nt, offsets), s1))"

text \<open>\<open>jagged_from_list(tensors, offsets, dtype=None, device=None)\<close>.\<close>

definition jagged_from_list ::
  "dense list \<Rightarrow> dense option \<Rightarrow> dtype option \<Rightarrow> device option \<Rightarrow> state
     \<Rightarrow> (exn + nested \<times> dense) \<times> state" where
  "jagged_from_list tensors offsets dtype device s =
     (if length (remdups (map t_dtype tensors)) \<noteq> 1 then (Inl (RuntimeError msg_same_dtype), s)
      else if length (remdups (map t_device tensors)) \<noteq> 1 then (Inl (RuntimeError msg_same_device), s)
      else
        (let sizes = map t_shape tensors;
             non_first_sizes = map (drop 1) sizes
         in if \<not> at_most_first_ragged non_first_sizes then (Inl (RuntimeError msg_not_jagged), s)
            else
              (case torch_cat tensors s of
                 (Inl e, s1) \<Rightarrow> (Inl e, s1)
               | (Inr values0, s1) \<Rightarrow>
                   (case tensor_to values0 device dtype s1 of
                      (values, s2) \<Rightarrow>
                        (case offsets of
                           Some off \<Rightarrow> return_view values off s2
                         | None \<Rightarrow>
                             (case torch_zeros1 Int64 (t_device values) s2 of
                                (z, s3) \<Rightarrow>
                                  (case first_sizes sizes of
                                     Inl e \<Rightarrow> (Inl e, s3)
                                   | Inr lens \<Rightarrow>
                                       (case torch_tensor lens (t_device values) s3 of
                                          (Inl e, s4) \<Rightarrow> (Inl e, s4)
                                        | (Inr lt, s4) \<Rightarrow>
                                            (case tensor_cumsum lt s4 of
                                               (cs, s5) \<Rightarrow>
                                                 (case torch_cat [z, cs] s5 of
                                                    (Inl e, s6) \<Rightarrow> (Inl e, s6)
                                                  | (Inr off, s6) \<Rightarrow> return_view values off s6))))))))))"

text \<open>
  The prefix sums of a list of lengths, as the specification words them:
  \<open>[len_0, len_0 + len_1, ...]\<close>.
\<close>

definition prefix_sums :: "int list \<Rightarrow> int list" where
  "prefix_sums xs = map (\<lambda>k. sum_list (take (Suc k) xs)) [0..<length xs]"

subsection \<open>The module at import\<close>

text \<open>
  The module's last statement builds \<open>_nt_view_dummy\<close> from two fresh meta tensors, so
  the registry already holds one entry and the counter is 1 when the import has run.
\<close>

definition module_state :: state where
  "module_state =
     (case torch_randn [1, 1] Meta initial_state of
        (v, s1) \<Rightarrow>
          (case torch_randn [1] Meta s1 of
             (off, s2) \<Rightarrow> snd (NestedTensor (Plain v) (Some off) None s2)))"

subsection \<open>Example objects\<close>

text \<open>
  Tensors for the evaluated instances below: a values buffer of shape \<open>(8, 4)\<close>, an
  offsets buffer \<open>[0, 3, 8]\<close>, a second offsets object with the same contents,
  placeholders of symbolic shape \<open>(s1, 4)\<close> and \<open>(s0,)\<close>, an offsets tensor of rank 2, a
  values tensor of rank 0, an int64 values tensor, and list elements for the construction
  helper.
\<close>

definition ex_values :: dense where
  "ex_values = \<lparr>t_id = 3, t_shape = [IntVal 8, IntVal 4], t_stride = [IntVal 4, IntVal 1],
     t_dtype = Float32, t_device = CPU, t_data = []\<rparr>"

definition ex_offsets :: dense where
  "ex_offsets = \<lparr>t_id = 4, t_shape = [IntVal 3], t_stride = [IntVal 1], t_dtype = Int64,
     t_device = CPU, t_data = [0, 3, 8]\<rparr>"

definition ex_offsets_twin :: dense where
  "ex_offsets_twin = ex_offsets\<lparr>t_id := 5\<rparr>"

definition ex_values_fake :: dense where
  "ex_values_fake = ex_values\<lparr>t_id := 6, t_shape := [SymVar ''s1'', IntVal 4]\<rparr>"

definition ex_offsets_fake :: dense where
  "ex_offsets_fake = ex_offsets\<lparr>t_id := 7, t_shape := [SymVar ''s0''], t_data := []\<rparr>"

definition ex_offsets_2d :: dense where
  "ex_offsets_2d = \<lparr>t_id = 8, t_shape = [IntVal 3, IntVal 1], t_stride = [IntVal 1, IntVal 1],
     t_dtype = Int64, t_device = CPU, t_data = []\<rparr>"

definition ex_scalar :: dense where
  "ex_scalar = \<lparr>t_id = 9, t_shape = [], t_stride = [], t_dtype = Float32,
     t_device = CPU, t_data = []\<rparr>"

definition ex_a0 :: dense where
  "ex_a0 = \<lparr>t_id = 10, t_shape = [IntVal 3, IntVal 4], t_stride = [IntVal 4, IntVal 1],
     t_dtype = Float32, t_device = CPU, t_data = []\<rparr>"

definition ex_a1 :: dense where
  "ex_a1 = \<lparr>t_id = 11, t_shape = [IntVal 5, IntVal 4], t_stride = [IntVal 4, IntVal 1],
     t_dtype = Float32, t_device = CPU, t_data = []\<rparr>"

definition ex_b1 :: dense where
  "ex_b1 = \<lparr>t_id = 12, t_shape = [IntVal 5, IntVal 5], t_stride = [IntVal 5, IntVal 1],
     t_dtype = Float32, t_device = CPU, t_data = []\<rparr>"

definition ex_a1_f64 :: dense where
  "ex_a1_f64 = ex_a1\<lparr>t_id := 13, t_dtype := Float64\<rparr>"

definition ex_grad :: dense where
  "ex_grad = ex_values\<lparr>t_id := 14\<rparr>"

definition ex_values_int :: dense where
  "ex_values_int = ex_values\<lparr>t_id := 15, t_dtype := Int64\<rparr>"

text \<open>The state after the import, once the caller holds the example tensors.\<close>

definition ex_state :: state where
  "ex_state = module_state\<lparr>next_tid := 20\<rparr>"

text \<open>
  The state after a wrapper over \<open>ex_values\<close> and \<open>ex_offsets\<close> was built, flattened,
  and unflattened onto the two placeholders (as fakification does).
\<close>

definition ex_state_fakified :: state where
  "ex_state_fakified =
     (case NestedTensor (Plain ex_values) (Some ex_offsets) None ex_state of
        (Inl e, s1) \<Rightarrow> s1
      | (Inr w, s1) \<Rightarrow>
          (case tensor_flatten w of
             Inl e \<Rightarrow> s1
           | Inr (attrs, ctx) \<Rightarrow>
               snd (tensor_unflatten [(''_values'', ex_values_fake), (''_offsets'', ex_offsets_fake)]
                      ctx s1)))"

text \<open>The wrapper that \<open>NestedTensor(ex_values, ex_offsets)\<close> builds in \<open>ex_state\<close>.\<close>

definition ex_wrapper :: nested where
  "ex_wrapper =
     \<lparr>nt_id = 20, nt_requires_grad = False, nt_dtype = Float32, nt_device = CPU,
      nt_size = Some [IntVal 2, Singleton 1 1, IntVal 4],
      nt_strides = Some [Singleton 1 4, IntVal 4, IntVal 1],
      nt_ragged_idx = Some 1, nt_values = Some ex_values, nt_offsets = Some ex_offsets\<rparr>"

definition ex_state_built :: state where
  "ex_state_built = snd (NestedTensor (Plain ex_values) (Some ex_offsets) None ex_state)"

text \<open>
  The state after \<open>ex_wrapper\<close> was built and \<open>__tensor_unflatten__\<close> then ran on
  placeholder values over the same offsets object \<open>ex_offsets\<close>, with the context of
  the import's dummy wrapper, whose ragged symbol is \<open>Singleton 0 1\<close>.
\<close>

definition ex_state_overwritten :: state where
  "ex_state_overwritten =
     snd (tensor_unflatten [(''_values'', ex_values_fake), (''_offsets'', ex_offsets)]
            \<lparr>m_requires_grad = Some False, m_ragged_size = Some (Singleton 0 1)\<rparr>
            ex_state_built)"

text \<open>The object \<open>__new__\<close> hands to \<open>__init__\<close> for a rank-0 values tensor.\<close>

definition ex_blank :: nested where
  "ex_blank =
     \<lparr>nt_id = 20, nt_requires_grad = False, nt_dtype = Float32, nt_device = CPU,
      nt_size = None, nt_strides = None, nt_ragged_idx = None,
      nt_values = None, nt_offsets = None\<rparr>"


section \<open>The registry\<close>

lemma get_tensor_symint_hit:
  "tensor_symint_registry s (t_id t) = Some y \<Longrightarrow> get_tensor_symint t c s = (Inr y, s)"
  by (simp add: get_tensor_symint_def)

lemma get_tensor_symint_miss:
  "tensor_symint_registry s (t_id t) = None \<Longrightarrow>
   get_tensor_symint t c s =
     (Inr (Singleton (tensor_id_counter s) c),
      s\<lparr>tensor_symint_registry := (tensor_symint_registry s)(t_id t \<mapsto> Singleton (tensor_id_counter s) c),
        tensor_id_counter := tensor_id_counter s + 1\<rparr>)"
  by (simp add: get_tensor_symint_def get_singleton_int_def Let_def)

lemma registry_inv_initial: "registry_inv initial_state"
  by (simp add: registry_inv_def initial_state_def)

lemma registry_inv_below:
  "registry_inv s \<Longrightarrow> tensor_symint_registry s k = Some y \<Longrightarrow>
     \<exists>v c. y = Singleton v c \<and> v < tensor_id_counter s"
  unfolding registry_inv_def by (elim conjE allE [of _ k] allE [of _ y]) simp

lemma registry_inv_inj:
  "registry_inv s \<Longrightarrow> tensor_symint_registry s k1 = Some y \<Longrightarrow>
     tensor_symint_registry s k2 = Some y \<Longrightarrow> k1 = k2"
  unfolding registry_inv_def
  by (elim conjE) (erule allE [of _ k1], erule allE [of _ k2], erule allE [of _ y], simp)+

text \<open>A resolve call keeps the invariant: a minted symbol takes the counter's value.\<close>

lemma registry_inv_get_tensor_symint:
  assumes "registry_inv s"
  shows "registry_inv (snd (get_tensor_symint t c s))"
proof (cases "tensor_symint_registry s (t_id t)")
  case (Some y)
  then show ?thesis using assms by (simp add: get_tensor_symint_hit)
next
  case None
  have below: "\<And>k y. tensor_symint_registry s k = Some y \<Longrightarrow>
      \<exists>v c. y = Singleton v c \<and> v < tensor_id_counter s"
    using assms by (rule registry_inv_below)
  have inj: "\<And>k1 k2 y. tensor_symint_registry s k1 = Some y \<Longrightarrow>
      tensor_symint_registry s k2 = Some y \<Longrightarrow> k1 = k2"
    using assms by (rule registry_inv_inj)
  show ?thesis
    unfolding get_tensor_symint_miss [OF None] registry_inv_def
    apply (simp split: if_splits)
    apply (intro conjI allI impI)
    subgoal using below by force
    subgoal using below by force
    subgoal using below by force
    subgoal using inj by blast
    done
qed

lemma registry_inv_resolve_all:
  "registry_inv s \<Longrightarrow> registry_inv (resolve_all cs s)"
  by (induction cs arbitrary: s) (simp_all add: registry_inv_get_tensor_symint)

lemma resolve_other:
  assumes inv1: "registry_inv s1"
    and reg1: "tensor_symint_registry s1 (t_id o1) = Some y"
    and ne: "t_id o2 \<noteq> t_id o1"
  shows "\<exists>y2 s2. get_tensor_symint o2 c2 s1 = (Inr y2, s2) \<and> y2 \<noteq> y \<and>
                 get_tensor_symint o1 c' s2 = (Inr y, s2)"
proof (cases "tensor_symint_registry s1 (t_id o2)")
  case None
  let ?y2 = "Singleton (tensor_id_counter s1) c2"
  let ?s2 = "s1\<lparr>tensor_symint_registry := (tensor_symint_registry s1)(t_id o2 \<mapsto> ?y2),
      tensor_id_counter := tensor_id_counter s1 + 1\<rparr>"
  obtain v k where y: "y = Singleton v k" and v: "v < tensor_id_counter s1"
    using registry_inv_below [OF inv1 reg1] by (elim exE conjE)
  have a: "get_tensor_symint o2 c2 s1 = (Inr ?y2, ?s2)" by (rule get_tensor_symint_miss [OF None])
  have b: "?y2 \<noteq> y" using v unfolding y by simp
  have "tensor_symint_registry ?s2 (t_id o1) = Some y" using ne reg1 by simp
  then have c: "get_tensor_symint o1 c' ?s2 = (Inr y, ?s2)" by (rule get_tensor_symint_hit)
  show ?thesis
    by (rule exI [of _ ?y2], rule exI [of _ ?s2]) (intro conjI a b c)
next
  case (Some y2)
  have a: "get_tensor_symint o2 c2 s1 = (Inr y2, s1)" by (rule get_tensor_symint_hit [OF Some])
  have b: "y2 \<noteq> y"
  proof
    assume "y2 = y"
    then have "t_id o2 = t_id o1" using registry_inv_inj [OF inv1 _ reg1, of "t_id o2"] Some by simp
    then show False using ne by simp
  qed
  have c: "get_tensor_symint o1 c' s1 = (Inr y, s1)" by (rule get_tensor_symint_hit [OF reg1])
  show ?thesis
    by (rule exI [of _ y2], rule exI [of _ s1]) (intro conjI a b c)
qed




subsection \<open>The example states, evaluated\<close>

lemma module_state_eq:
  "module_state = \<lparr>tensor_id_counter = 1, tensor_symint_registry = [1 \<mapsto> Singleton 0 1],
     next_tid = 3, torch_function_subclass_enabled = True\<rparr>"
  by (simp add: module_state_def torch_randn_def initial_state_def clamp_dim_def
      NestedTensor_def NestedTensor_new_def NestedTensor_init_def get_tensor_symint_def
      get_singleton_int_def py_index_def Let_def arg_dtype_def arg_device_def symint_mul_def
      symint_sub_def is_floating_point_def)

lemma ex_state_eq:
  "ex_state = \<lparr>tensor_id_counter = 1, tensor_symint_registry = [1 \<mapsto> Singleton 0 1],
     next_tid = 20, torch_function_subclass_enabled = True\<rparr>"
  by (simp add: ex_state_def module_state_eq)

lemma registry_inv_ex_state: "registry_inv ex_state"
  unfolding registry_inv_def ex_state_eq by (simp split: if_splits)

section \<open>Claims about the registry\<close>

text \<open>
  Claim C1, as amended. In every state, resolving an offsets buffer \<open>o1\<close> returns a
  symbol \<open>y\<close>, and resolving it again, with any coefficient, returns the same \<open>y\<close> and
  changes nothing; the counter never decreases, and a symbol minted on a miss takes the
  counter's value as its identity and advances the counter by one. In a registry whose
  entries were all minted by resolve calls (\<open>registry_inv\<close>: stored symbols are singletons
  below the counter, pairwise distinct), a buffer \<open>o2\<close> of another identity then resolves
  to a symbol different from \<open>y\<close>, whatever its contents, and \<open>o1\<close> still resolves to
  \<open>y\<close> afterwards.
\<close>

theorem registry_identity_law:
  "\<exists>y s1. get_tensor_symint o1 c s = (Inr y, s1) \<and>
           get_tensor_symint o1 c' s1 = (Inr y, s1) \<and>
           tensor_id_counter s \<le> tensor_id_counter s1 \<and>
           (tensor_symint_registry s (t_id o1) = None \<longrightarrow>
              y = Singleton (tensor_id_counter s) c \<and> tensor_id_counter s1 = tensor_id_counter s + 1) \<and>
           (registry_inv s \<and> t_id o2 \<noteq> t_id o1 \<longrightarrow>
              (\<exists>y2 s2. get_tensor_symint o2 c2 s1 = (Inr y2, s2) \<and> y2 \<noteq> y \<and>
                 get_tensor_symint o1 c' s2 = (Inr y, s2)))"
proof (cases "tensor_symint_registry s (t_id o1)")
  case None
  let ?y = "Singleton (tensor_id_counter s) c"
  let ?s1 = "s\<lparr>tensor_symint_registry := (tensor_symint_registry s)(t_id o1 \<mapsto> ?y),
      tensor_id_counter := tensor_id_counter s + 1\<rparr>"
  have g1: "get_tensor_symint o1 c s = (Inr ?y, ?s1)" by (rule get_tensor_symint_miss [OF None])
  have reg1: "tensor_symint_registry ?s1 (t_id o1) = Some ?y" by simp
  have again: "get_tensor_symint o1 c' ?s1 = (Inr ?y, ?s1)" by (rule get_tensor_symint_hit [OF reg1])
  have mono: "tensor_id_counter s \<le> tensor_id_counter ?s1" by simp
  have mint: "tensor_symint_registry s (t_id o1) = None \<longrightarrow>
      ?y = Singleton (tensor_id_counter s) c \<and> tensor_id_counter ?s1 = tensor_id_counter s + 1" by simp
  have other: "registry_inv s \<and> t_id o2 \<noteq> t_id o1 \<longrightarrow>
      (\<exists>y2 s2. get_tensor_symint o2 c2 ?s1 = (Inr y2, s2) \<and> y2 \<noteq> ?y \<and>
         get_tensor_symint o1 c' s2 = (Inr ?y, s2))"
  proof
    assume a: "registry_inv s \<and> t_id o2 \<noteq> t_id o1"
    have inv1: "registry_inv ?s1"
      using registry_inv_get_tensor_symint [OF a [THEN conjunct1], of o1 c] unfolding g1
      by (simp only: snd_conv)
    show "\<exists>y2 s2. get_tensor_symint o2 c2 ?s1 = (Inr y2, s2) \<and> y2 \<noteq> ?y \<and>
         get_tensor_symint o1 c' s2 = (Inr ?y, s2)"
      by (rule resolve_other [OF inv1 reg1 a [THEN conjunct2]])
  qed
  show ?thesis
    by (rule exI [of _ ?y], rule exI [of _ ?s1]) (intro conjI g1 again mono mint other)
next
  case (Some y)
  have g1: "get_tensor_symint o1 c s = (Inr y, s)" by (rule get_tensor_symint_hit [OF Some])
  have again: "get_tensor_symint o1 c' s = (Inr y, s)" by (rule get_tensor_symint_hit [OF Some])
  have mono: "tensor_id_counter s \<le> tensor_id_counter s" by simp
  have mint: "tensor_symint_registry s (t_id o1) = None \<longrightarrow>
      y = Singleton (tensor_id_counter s) c \<and> tensor_id_counter s = tensor_id_counter s + 1"
    using Some by simp
  have other: "registry_inv s \<and> t_id o2 \<noteq> t_id o1 \<longrightarrow>
      (\<exists>y2 s2. get_tensor_symint o2 c2 s = (Inr y2, s2) \<and> y2 \<noteq> y \<and>
         get_tensor_symint o1 c' s2 = (Inr y, s2))"
  proof
    assume a: "registry_inv s \<and> t_id o2 \<noteq> t_id o1"
    show "\<exists>y2 s2. get_tensor_symint o2 c2 s = (Inr y2, s2) \<and> y2 \<noteq> y \<and>
         get_tensor_symint o1 c' s2 = (Inr y, s2)"
      by (rule resolve_other [OF a [THEN conjunct1] Some a [THEN conjunct2]])
  qed
  show ?thesis
    by (rule exI [of _ y], rule exI [of _ s]) (intro conjI g1 again mono mint other)
qed

text \<open>
  The law at the state after the import, where \<open>ex_offsets\<close> and \<open>ex_offsets_twin\<close> hold
  the same contents and resolve to different symbols; and its first part at the state in
  which a placeholder shares a symbol, where \<open>registry_inv\<close> does not hold and resolving
  twice still returns the same symbol.
\<close>

theorem registry_identity_law_witness:
  "registry_inv ex_state \<and> t_id ex_offsets_twin \<noteq> t_id ex_offsets \<and>
   fst (get_tensor_symint ex_offsets 1 (snd (get_tensor_symint ex_offsets 1 ex_state))) =
     fst (get_tensor_symint ex_offsets 1 ex_state) \<and>
   fst (get_tensor_symint ex_offsets_twin 1 (snd (get_tensor_symint ex_offsets 1 ex_state))) \<noteq>
     fst (get_tensor_symint ex_offsets 1 ex_state) \<and>
   fst (get_tensor_symint ex_offsets_fake 2
          (snd (get_tensor_symint ex_offsets_fake 1 ex_state_fakified))) =
     fst (get_tensor_symint ex_offsets_fake 1 ex_state_fakified)"
proof -
  have ne: "t_id ex_offsets_twin \<noteq> t_id ex_offsets"
    by (simp add: ex_offsets_twin_def ex_offsets_def)
  obtain y s1 where g1: "get_tensor_symint ex_offsets 1 ex_state = (Inr y, s1)"
    and g2: "get_tensor_symint ex_offsets 1 s1 = (Inr y, s1)"
    and oth: "registry_inv ex_state \<and> t_id ex_offsets_twin \<noteq> t_id ex_offsets \<longrightarrow>
       (\<exists>y2 s2. get_tensor_symint ex_offsets_twin 1 s1 = (Inr y2, s2) \<and> y2 \<noteq> y \<and>
          get_tensor_symint ex_offsets 1 s2 = (Inr y, s2))"
    using registry_identity_law [of ex_offsets 1 ex_state 1 ex_offsets_twin 1]
    by (elim exE conjE)
  obtain y2 s2 where g3: "get_tensor_symint ex_offsets_twin 1 s1 = (Inr y2, s2)" and d: "y2 \<noteq> y"
    using oth [THEN mp, OF conjI [OF registry_inv_ex_state ne]] by (elim exE conjE)
  obtain z t1 where h1: "get_tensor_symint ex_offsets_fake 1 ex_state_fakified = (Inr z, t1)"
    and h2: "get_tensor_symint ex_offsets_fake 2 t1 = (Inr z, t1)"
    using registry_identity_law [of ex_offsets_fake 1 ex_state_fakified 2 ex_offsets_fake 1]
    by (elim exE conjE)
  show ?thesis
    unfolding g1 snd_conv fst_conv g2 g3 h1 h2 using ne d registry_inv_ex_state by simp
qed

text \<open>
  Claim C1 as stated fails once \<open>__tensor_unflatten__\<close> has registered a context's
  symbol against a placeholder: the offsets buffer \<open>ex_offsets\<close> and the placeholder
  \<open>ex_offsets_fake\<close> are distinct objects and resolve to the same symbol.
\<close>

theorem registry_aliasing_counterexample:
  "t_id ex_offsets \<noteq> t_id ex_offsets_fake \<and>
   fst (get_tensor_symint ex_offsets 1 ex_state_fakified) = Inr (Singleton 1 1) \<and>
   fst (get_tensor_symint ex_offsets_fake 1 ex_state_fakified) = Inr (Singleton 1 1)"
  by (simp add: ex_state_fakified_def ex_state_eq ex_offsets_def ex_values_def
      ex_offsets_fake_def ex_values_fake_def tensor_flatten_def tensor_unflatten_def
      has_free_symbols_def
      NestedTensor_def NestedTensor_new_def NestedTensor_init_def get_tensor_symint_def
      get_singleton_int_def py_index_def Let_def arg_dtype_def arg_device_def symint_mul_def
      symint_sub_def is_floating_point_def)




section \<open>Claims about construction\<close>

lemma get_tensor_symint_next_tid:
  "get_tensor_symint t c (s\<lparr>next_tid := n\<rparr>) =
     (fst (get_tensor_symint t c s), (snd (get_tensor_symint t c s))\<lparr>next_tid := n\<rparr>)"
proof (cases "tensor_symint_registry s (t_id t)")
  case None
  then have "tensor_symint_registry (s\<lparr>next_tid := n\<rparr>) (t_id t) = None" by simp
  then show ?thesis
    unfolding get_tensor_symint_miss [OF None] by (simp add: get_tensor_symint_miss)
next
  case (Some y)
  then have "tensor_symint_registry (s\<lparr>next_tid := n\<rparr>) (t_id t) = Some y" by simp
  then show ?thesis
    unfolding get_tensor_symint_hit [OF Some] by (simp add: get_tensor_symint_hit)
qed

lemma get_tensor_symint_returns:
  "\<exists>y. fst (get_tensor_symint t c s) = Inr y"
proof (cases "tensor_symint_registry s (t_id t)")
  case None
  show ?thesis unfolding get_tensor_symint_miss [OF None] by simp
next
  case (Some y)
  show ?thesis unfolding get_tensor_symint_hit [OF Some] by simp
qed

text \<open>
  The symbol a resolve call returns and the registry entry it leaves, from the registry
  before the call.
\<close>

lemma get_tensor_symint_resolved:
  "get_tensor_symint t c s =
     (Inr (case tensor_symint_registry s (t_id t) of
             None \<Rightarrow> Singleton (tensor_id_counter s) c | Some y \<Rightarrow> y),
      snd (get_tensor_symint t c s)) \<and>
   tensor_symint_registry (snd (get_tensor_symint t c s)) (t_id t) =
     Some (case tensor_symint_registry s (t_id t) of
             None \<Rightarrow> Singleton (tensor_id_counter s) c | Some y \<Rightarrow> y)"
proof (cases "tensor_symint_registry s (t_id t)")
  case None
  show ?thesis unfolding get_tensor_symint_miss [OF None] using None by simp
next
  case (Some y)
  show ?thesis unfolding get_tensor_symint_hit [OF Some] using Some by simp
qed

lemma NestedTensor_init_success:
  assumes "t_shape off = [n]" and "t_stride v = st0 # rest"
    and "get_tensor_symint off 1 s = (Inr symb, s1)"
  shows "NestedTensor_init self (Plain v) (Some off) s =
     (None,
      self\<lparr>nt_size := Some (symint_sub n 1 # symb # drop 1 (t_shape v)),
           nt_strides := Some (symint_mul symb st0 # st0 # rest),
           nt_ragged_idx := Some 1, nt_values := Some v, nt_offsets := Some off\<rparr>,
      s1)"
  by (simp add: NestedTensor_init_def py_index_def Let_def assms)

lemma NestedTensor_new_admits:
  assumes "kw = Some True \<longrightarrow> is_floating_point (arg_dtype vs)"
  shows "NestedTensor_new vs offsets kw s =
     (Inr \<lparr>nt_id = next_tid s,
           nt_requires_grad = (case kw of None \<Rightarrow> False | Some b \<Rightarrow> b),
           nt_dtype = arg_dtype vs, nt_device = arg_device vs,
           nt_size = None, nt_strides = None, nt_ragged_idx = None,
           nt_values = None, nt_offsets = None\<rparr>,
      s\<lparr>next_tid := Suc (next_tid s)\<rparr>)"
proof (cases kw)
  case None
  then show ?thesis by (simp add: NestedTensor_new_def)
next
  case (Some b)
  then show ?thesis using assms by (cases b) (simp_all add: NestedTensor_new_def)
qed

lemma NestedTensor_new_refuses:
  assumes "kw = Some True" and "\<not> is_floating_point (arg_dtype vs)"
  shows "NestedTensor vs offsets kw s = (Inl (RuntimeError msg_requires_grad), s)"
  using assms by (simp add: NestedTensor_def NestedTensor_new_def)

lemma NestedTensor_success:
  assumes "t_shape off = [n]" and "t_stride v = st0 # rest"
    and "get_tensor_symint off 1 s = (Inr symb, s1)"
    and grad: "kw = Some True \<longrightarrow> is_floating_point (t_dtype v)"
  shows "NestedTensor (Plain v) (Some off) kw s =
     (Inr \<lparr>nt_id = next_tid s,
           nt_requires_grad = (case kw of None \<Rightarrow> False | Some b \<Rightarrow> b),
           nt_dtype = t_dtype v, nt_device = t_device v,
           nt_size = Some (symint_sub n 1 # symb # drop 1 (t_shape v)),
           nt_strides = Some (symint_mul symb st0 # st0 # rest),
           nt_ragged_idx = Some 1, nt_values = Some v, nt_offsets = Some off\<rparr>,
      s1\<lparr>next_tid := Suc (next_tid s)\<rparr>)"
proof -
  let ?r = "\<lparr>nt_id = next_tid s,
       nt_requires_grad = (case kw of None \<Rightarrow> False | Some b \<Rightarrow> b),
       nt_dtype = t_dtype v, nt_device = t_device v,
       nt_size = None, nt_strides = None, nt_ragged_idx = None,
       nt_values = None, nt_offsets = None\<rparr>"
  let ?s0 = "s\<lparr>next_tid := Suc (next_tid s)\<rparr>"
  have grad': "kw = Some True \<longrightarrow> is_floating_point (arg_dtype (Plain v))"
    using grad by (simp add: arg_dtype_def)
  have new: "NestedTensor_new (Plain v) (Some off) kw s = (Inr ?r, ?s0)"
    using NestedTensor_new_admits [OF grad'] by (simp add: arg_dtype_def arg_device_def)
  have g: "get_tensor_symint off 1 ?s0 = (Inr symb, s1\<lparr>next_tid := Suc (next_tid s)\<rparr>)"
    unfolding get_tensor_symint_next_tid assms(3) by simp
  note i = NestedTensor_init_success [OF assms(1,2) g, of ?r]
  show ?thesis
    unfolding NestedTensor_def new by (simp add: i)
qed

text \<open>
  Claim C2, as amended. For a dense values buffer of rank at least 1 (of a floating-point
  dtype when \<open>requires_grad\<close> is asked for) and an offsets buffer of rank 1 and length
  \<open>n\<close>, construction resolves the ragged symbol of the offsets with coefficient 1 and sets
  the logical shape to \<open>(n - 1, symbol, *values.shape[1:])\<close> and the logical stride to
  \<open>(symbol * values.stride[0], *values.stride)\<close>: the scaled leading stride followed by
  all of the strides of the values buffer, the leading one included. It stores the values
  and offsets objects themselves.
\<close>

theorem construct_shape_stride:
  assumes "t_shape off = [n]" and "t_stride v \<noteq> []"
    and "kw = Some True \<longrightarrow> is_floating_point (t_dtype v)"
  shows "\<exists>symb s1 w. get_tensor_symint off 1 s = (Inr symb, s1) \<and>
     NestedTensor (Plain v) (Some off) kw s = (Inr w, s1\<lparr>next_tid := Suc (next_tid s)\<rparr>) \<and>
     nt_size w = Some (symint_sub n 1 # symb # drop 1 (t_shape v)) \<and>
     nt_strides w = Some (symint_mul symb (hd (t_stride v)) # t_stride v) \<and>
     nt_ragged_idx w = Some 1 \<and> nt_values w = Some v \<and> nt_offsets w = Some off"
proof -
  obtain st0 rest where st: "t_stride v = st0 # rest" using assms(2) by (cases "t_stride v") simp_all
  obtain symb where f: "fst (get_tensor_symint off 1 s) = Inr symb"
    using get_tensor_symint_returns by blast
  define s1 where "s1 = snd (get_tensor_symint off 1 s)"
  have g: "get_tensor_symint off 1 s = (Inr symb, s1)"
    unfolding s1_def using f by (simp add: prod_eq_iff)
  let ?w = "\<lparr>nt_id = next_tid s,
           nt_requires_grad = (case kw of None \<Rightarrow> False | Some b \<Rightarrow> b),
           nt_dtype = t_dtype v, nt_device = t_device v,
           nt_size = Some (symint_sub n 1 # symb # drop 1 (t_shape v)),
           nt_strides = Some (symint_mul symb st0 # st0 # rest),
           nt_ragged_idx = Some 1, nt_values = Some v, nt_offsets = Some off\<rparr>"
  have c: "NestedTensor (Plain v) (Some off) kw s = (Inr ?w, s1\<lparr>next_tid := Suc (next_tid s)\<rparr>)"
    by (rule NestedTensor_success [OF assms(1) st g assms(3)])
  have f1: "nt_size ?w = Some (symint_sub n 1 # symb # drop 1 (t_shape v))" by simp
  have f2: "nt_strides ?w = Some (symint_mul symb (hd (t_stride v)) # t_stride v)"
    by (simp add: st)
  have f3: "nt_ragged_idx ?w = Some 1" "nt_values ?w = Some v" "nt_offsets ?w = Some off"
    by simp_all
  show ?thesis
    by (rule exI [of _ symb], rule exI [of _ s1], rule exI [of _ ?w]) (intro conjI g c f1 f2 f3)
qed

text \<open>The construction law at the example buffers, with \<open>requires_grad=True\<close>.\<close>

theorem construct_shape_stride_witness:
  "t_shape ex_offsets = [IntVal 3] \<and> t_stride ex_values \<noteq> [] \<and>
   is_floating_point (t_dtype ex_values) \<and>
   (\<exists>symb s1 w. get_tensor_symint ex_offsets 1 ex_state = (Inr symb, s1) \<and>
     NestedTensor (Plain ex_values) (Some ex_offsets) (Some True) ex_state =
       (Inr w, s1\<lparr>next_tid := Suc (next_tid ex_state)\<rparr>) \<and>
     nt_size w = Some (symint_sub (IntVal 3) 1 # symb # drop 1 (t_shape ex_values)) \<and>
     nt_strides w = Some (symint_mul symb (hd (t_stride ex_values)) # t_stride ex_values) \<and>
     nt_ragged_idx w = Some 1 \<and> nt_values w = Some ex_values \<and> nt_offsets w = Some ex_offsets)"
proof -
  have h1: "t_shape ex_offsets = [IntVal 3]" by (simp add: ex_offsets_def)
  have h2: "t_stride ex_values \<noteq> []" by (simp add: ex_values_def)
  have h3: "is_floating_point (t_dtype ex_values)"
    by (simp add: ex_values_def is_floating_point_def)
  have h3': "Some True = Some True \<longrightarrow> is_floating_point (t_dtype ex_values)"
    using h3 by simp
  show ?thesis by (intro conjI h1 h2 h3 construct_shape_stride [OF h1 h2 h3'])
qed

lemma ex_wrapper_built:
  "NestedTensor (Plain ex_values) (Some ex_offsets) None ex_state =
     (Inr ex_wrapper,
      \<lparr>tensor_id_counter = 2,
       tensor_symint_registry = [1 \<mapsto> Singleton 0 1, 4 \<mapsto> Singleton 1 1],
       next_tid = 21, torch_function_subclass_enabled = True\<rparr>)"
  by (simp add: ex_wrapper_def ex_state_eq ex_offsets_def ex_values_def
      NestedTensor_def NestedTensor_new_def NestedTensor_init_def get_tensor_symint_def
      get_singleton_int_def py_index_def Let_def arg_dtype_def arg_device_def symint_mul_def
      symint_sub_def)

lemma ex_state_built_eq:
  "ex_state_built =
     \<lparr>tensor_id_counter = 2,
      tensor_symint_registry = [1 \<mapsto> Singleton 0 1, 4 \<mapsto> Singleton 1 1],
      next_tid = 21, torch_function_subclass_enabled = True\<rparr>"
  unfolding ex_state_built_def ex_wrapper_built by simp

text \<open>
  Claim C2 as stated fails on the stride. For values of shape \<open>(8, 4)\<close> and stride
  \<open>(4, 1)\<close> the constructor stores the stride \<open>(4 * symbol, 4, 1)\<close>, one entry per
  logical dimension, where the formula \<open>(symbol * stride[0], *stride[1:])\<close> gives
  \<open>(4 * symbol, 1)\<close>.
\<close>

theorem stride_formula_counterexample:
  "fst (NestedTensor (Plain ex_values) (Some ex_offsets) None ex_state) = Inr ex_wrapper \<and>
   fst (get_tensor_symint ex_offsets 1 ex_state) = Inr (Singleton 1 1) \<and>
   t_stride ex_values = [IntVal 4, IntVal 1] \<and>
   nt_strides ex_wrapper = Some [Singleton 1 4, IntVal 4, IntVal 1] \<and>
   spec_logical_stride (Singleton 1 1) ex_values = [Singleton 1 4, IntVal 1] \<and>
   nt_strides ex_wrapper \<noteq> Some (spec_logical_stride (Singleton 1 1) ex_values)"
  by (simp add: ex_wrapper_built)
     (simp add: ex_wrapper_def ex_values_def ex_offsets_def ex_state_eq spec_logical_stride_def
       symint_mul_def get_tensor_symint_def get_singleton_int_def Let_def)

lemma NestedTensor_init_assert:
  assumes "offsets = None \<or> (\<exists>off. offsets = Some off \<and> length (t_shape off) \<noteq> 1) \<or>
           (\<exists>w. vs = Wrapper w)"
  shows "NestedTensor_init self vs offsets s = (Some AssertionError, self, s)"
  using assms by (auto simp: NestedTensor_init_def split: option.splits tensor_arg.splits)

lemma NestedTensor_init_complete:
  assumes "NestedTensor_init self vs offsets s = (None, self', s')"
  shows "nt_size self' \<noteq> None \<and> nt_strides self' \<noteq> None \<and> nt_ragged_idx self' \<noteq> None \<and>
         nt_values self' \<noteq> None \<and> nt_offsets self' \<noteq> None"
proof (cases offsets)
  case None
  then show ?thesis using assms by (simp add: NestedTensor_init_def)
next
  case (Some off)
  show ?thesis
  proof (cases vs)
    case (Wrapper w)
    then show ?thesis using assms Some by (simp add: NestedTensor_init_def split: if_splits)
  next
    case (Plain v)
    obtain r s1 where g: "get_tensor_symint off 1 s = (r, s1)" by (cases "get_tensor_symint off 1 s")
    show ?thesis
      using assms unfolding Some Plain NestedTensor_init_def
      by (simp add: g Let_def split: if_splits sum.splits) auto
  qed
qed

text \<open>
  Claim C3, as amended. When \<open>offsets\<close> is missing or not of rank 1, or \<open>values\<close> is
  itself a wrapper, \<open>__init__\<close> fails with \<open>AssertionError\<close> (the same class for all
  three checks) before any attribute is set and before the registry is consulted: object
  and state are returned as they were. The constructor call then fails with that
  \<open>AssertionError\<close> and changes nothing but the allocation of the object, unless
  \<open>__new__\<close> has refused the arguments first: when \<open>requires_grad=True\<close> is asked for
  values of a dtype that is not floating point, the call fails with \<open>RuntimeError\<close>
  before any check runs and changes nothing at all. Whenever \<open>__init__\<close> returns without
  raising, all five attributes are set, and it does return without raising for a dense
  values buffer of rank at least 1 and an offsets buffer of rank 1.
\<close>

theorem construct_assertions:
  "((offsets = None \<or> (\<exists>off. offsets = Some off \<and> length (t_shape off) \<noteq> 1) \<or>
     (\<exists>w. vs = Wrapper w)) \<longrightarrow>
      NestedTensor_init self vs offsets s = (Some AssertionError, self, s) \<and>
      ((kw = Some True \<longrightarrow> is_floating_point (arg_dtype vs)) \<longrightarrow>
         NestedTensor vs offsets kw s = (Inl AssertionError, s\<lparr>next_tid := Suc (next_tid s)\<rparr>))) \<and>
   (kw = Some True \<and> \<not> is_floating_point (arg_dtype vs) \<longrightarrow>
      NestedTensor vs offsets kw s = (Inl (RuntimeError msg_requires_grad), s)) \<and>
   (\<forall>self' s'. NestedTensor_init self vs offsets s = (None, self', s') \<longrightarrow>
      nt_size self' \<noteq> None \<and> nt_strides self' \<noteq> None \<and> nt_ragged_idx self' \<noteq> None \<and>
      nt_values self' \<noteq> None \<and> nt_offsets self' \<noteq> None) \<and>
   (\<forall>v off. vs = Plain v \<and> offsets = Some off \<and> length (t_shape off) = 1 \<and> t_stride v \<noteq> []
      \<longrightarrow> fst (NestedTensor_init self vs offsets s) = None)"
proof (intro conjI impI allI)
  assume a: "offsets = None \<or> (\<exists>off. offsets = Some off \<and> length (t_shape off) \<noteq> 1) \<or>
     (\<exists>w. vs = Wrapper w)"
  show "NestedTensor_init self vs offsets s = (Some AssertionError, self, s)"
    by (rule NestedTensor_init_assert [OF a])
  assume g: "kw = Some True \<longrightarrow> is_floating_point (arg_dtype vs)"
  show "NestedTensor vs offsets kw s = (Inl AssertionError, s\<lparr>next_tid := Suc (next_tid s)\<rparr>)"
    unfolding NestedTensor_def NestedTensor_new_admits [OF g]
    by (simp add: NestedTensor_init_assert [OF a])
next
  assume a: "kw = Some True \<and> \<not> is_floating_point (arg_dtype vs)"
  show "NestedTensor vs offsets kw s = (Inl (RuntimeError msg_requires_grad), s)"
    by (rule NestedTensor_new_refuses [OF a [THEN conjunct1] a [THEN conjunct2]])
next
  fix self' s'
  assume "NestedTensor_init self vs offsets s = (None, self', s')"
  then have c: "nt_size self' \<noteq> None \<and> nt_strides self' \<noteq> None \<and> nt_ragged_idx self' \<noteq> None \<and>
      nt_values self' \<noteq> None \<and> nt_offsets self' \<noteq> None"
    by (rule NestedTensor_init_complete)
  show "nt_size self' \<noteq> None" "nt_strides self' \<noteq> None" "nt_ragged_idx self' \<noteq> None"
    "nt_values self' \<noteq> None" "nt_offsets self' \<noteq> None"
    using c by simp_all
next
  fix v off
  assume a: "vs = Plain v \<and> offsets = Some off \<and> length (t_shape off) = 1 \<and> t_stride v \<noteq> []"
  then obtain n where n: "t_shape off = [n]" by (cases "t_shape off") auto
  from a obtain st0 rest where st: "t_stride v = st0 # rest" by (cases "t_stride v") auto
  obtain symb where f: "fst (get_tensor_symint off 1 s) = Inr symb"
    using get_tensor_symint_returns by blast
  have g: "get_tensor_symint off 1 s = (Inr symb, snd (get_tensor_symint off 1 s))"
    using f by (simp add: prod_eq_iff)
  show "fst (NestedTensor_init self vs offsets s) = None"
    using a by (simp add: NestedTensor_init_success [OF n st g])
qed

text \<open>
  The parts of C3 on the examples: offsets of rank 2, a wrapper passed as values, int64
  values with \<open>requires_grad=True\<close>, and a construction that succeeds.
\<close>

theorem construct_assertions_witness:
  "length (t_shape ex_offsets_2d) \<noteq> 1 \<and>
   NestedTensor_init ex_blank (Plain ex_values) (Some ex_offsets_2d) ex_state =
     (Some AssertionError, ex_blank, ex_state) \<and>
   NestedTensor (Plain ex_values) (Some ex_offsets_2d) None ex_state =
     (Inl AssertionError, ex_state\<lparr>next_tid := Suc (next_tid ex_state)\<rparr>) \<and>
   NestedTensor_init ex_blank (Wrapper ex_wrapper) (Some ex_offsets) ex_state =
     (Some AssertionError, ex_blank, ex_state) \<and>
   \<not> is_floating_point (arg_dtype (Plain ex_values_int)) \<and>
   NestedTensor (Plain ex_values_int) (Some ex_offsets_2d) (Some True) ex_state =
     (Inl (RuntimeError msg_requires_grad), ex_state) \<and>
   fst (NestedTensor_init ex_blank (Plain ex_values) (Some ex_offsets) ex_state) = None \<and>
   nt_offsets (fst (snd (NestedTensor_init ex_blank (Plain ex_values) (Some ex_offsets) ex_state)))
     \<noteq> None"
proof -
  have h: "length (t_shape ex_offsets_2d) \<noteq> 1" by (simp add: ex_offsets_2d_def)
  note t1 = construct_assertions [where offsets = "Some ex_offsets_2d" and vs = "Plain ex_values"
      and self = ex_blank and s = ex_state and kw = None]
  note t2 = construct_assertions [where offsets = "Some ex_offsets" and vs = "Wrapper ex_wrapper"
      and self = ex_blank and s = ex_state and kw = None]
  note t3 = construct_assertions [where offsets = "Some ex_offsets" and vs = "Plain ex_values"
      and self = ex_blank and s = ex_state and kw = None]
  note t4 = construct_assertions [where offsets = "Some ex_offsets_2d"
      and vs = "Plain ex_values_int" and self = ex_blank and s = ex_state and kw = "Some True"]
  have a1: "NestedTensor_init ex_blank (Plain ex_values) (Some ex_offsets_2d) ex_state =
     (Some AssertionError, ex_blank, ex_state) \<and>
     NestedTensor (Plain ex_values) (Some ex_offsets_2d) None ex_state =
     (Inl AssertionError, ex_state\<lparr>next_tid := Suc (next_tid ex_state)\<rparr>)"
    using t1 [THEN conjunct1] h by simp
  have a2: "NestedTensor_init ex_blank (Wrapper ex_wrapper) (Some ex_offsets) ex_state =
     (Some AssertionError, ex_blank, ex_state)"
    using t2 [THEN conjunct1] by simp
  have nf: "\<not> is_floating_point (arg_dtype (Plain ex_values_int))"
    by (simp add: arg_dtype_def ex_values_int_def is_floating_point_def)
  have a5: "NestedTensor (Plain ex_values_int) (Some ex_offsets_2d) (Some True) ex_state =
     (Inl (RuntimeError msg_requires_grad), ex_state)"
    using t4 [THEN conjunct2, THEN conjunct1] nf by simp
  have a3: "fst (NestedTensor_init ex_blank (Plain ex_values) (Some ex_offsets) ex_state) = None"
    using t3 [THEN conjunct2, THEN conjunct2, THEN conjunct2]
    by (simp add: ex_offsets_def ex_values_def)
  obtain self' s' where i: "NestedTensor_init ex_blank (Plain ex_values) (Some ex_offsets) ex_state = (None, self', s')"
    using a3 by (cases "NestedTensor_init ex_blank (Plain ex_values) (Some ex_offsets) ex_state") auto
  have a4: "nt_offsets self' \<noteq> None"
    using t3 [THEN conjunct2, THEN conjunct2, THEN conjunct1] i by simp
  show ?thesis unfolding i using h a1 a2 nf a5 a4 by simp
qed

text \<open>
  Claim C3 as stated fails: offsets of rank 2 raise \<open>AssertionError\<close>, not
  \<open>ShapeError\<close>, and a wrapper passed as values raises \<open>AssertionError\<close>, not
  \<open>TypeError\<close>. And a values tensor of rank 0 makes \<open>stride[0]\<close> raise \<open>IndexError\<close>
  after the symbol was minted and \<open>_size\<close> was assigned.
\<close>

theorem construct_error_class_counterexample:
  "fst (NestedTensor (Plain ex_values) (Some ex_offsets_2d) None ex_state) =
     Inl (Exn ''AssertionError'' '''') \<and>
   exn_class (Exn ''AssertionError'' '''') \<noteq> ''ShapeError'' \<and>
   fst (NestedTensor (Wrapper ex_wrapper) (Some ex_offsets) None ex_state) =
     Inl (Exn ''AssertionError'' '''') \<and>
   exn_class (Exn ''AssertionError'' '''') \<noteq> ''TypeError'' \<and>
   fst (NestedTensor_new (Plain ex_scalar) (Some ex_offsets) None ex_state) = Inr ex_blank \<and>
   nt_size ex_blank = None \<and>
   fst (NestedTensor_init ex_blank (Plain ex_scalar) (Some ex_offsets) ex_state) = Some IndexError \<and>
   nt_size (fst (snd (NestedTensor_init ex_blank (Plain ex_scalar) (Some ex_offsets) ex_state))) =
     Some [IntVal 2, Singleton 1 1] \<and>
   nt_strides (fst (snd (NestedTensor_init ex_blank (Plain ex_scalar) (Some ex_offsets) ex_state))) =
     None \<and>
   tensor_id_counter ex_state = 1 \<and>
   tensor_id_counter (snd (snd (NestedTensor_init ex_blank (Plain ex_scalar) (Some ex_offsets) ex_state))) = 2"
  by (simp add: ex_blank_def ex_wrapper_def ex_state_eq ex_offsets_def ex_values_def ex_scalar_def
      ex_offsets_2d_def AssertionError_def
      NestedTensor_def NestedTensor_new_def NestedTensor_init_def get_tensor_symint_def
      get_singleton_int_def py_index_def Let_def arg_dtype_def arg_device_def symint_mul_def
      symint_sub_def)

section \<open>Claims about the construction helper\<close>

lemma remdups_one_iff:
  "length (remdups xs) = 1 \<longleftrightarrow> xs \<noteq> [] \<and> (\<forall>x\<in>set xs. \<forall>y\<in>set xs. x = y)"
proof -
  have "length (remdups xs) = card (set xs)" by (simp add: length_remdups_card_conv)
  moreover have "card (set xs) = 1 \<longleftrightarrow> (\<exists>a. set xs = {a})"
    unfolding One_nat_def by (rule card_1_singleton_iff)
  moreover have "(\<exists>a. set xs = {a}) \<longleftrightarrow> xs \<noteq> [] \<and> (\<forall>x\<in>set xs. \<forall>y\<in>set xs. x = y)"
  proof
    assume "\<exists>a. set xs = {a}"
    then show "xs \<noteq> [] \<and> (\<forall>x\<in>set xs. \<forall>y\<in>set xs. x = y)" by auto
  next
    assume a: "xs \<noteq> [] \<and> (\<forall>x\<in>set xs. \<forall>y\<in>set xs. x = y)"
    then obtain x where "x \<in> set xs" by (cases xs) auto
    with a have "set xs = {x}" by auto
    then show "\<exists>a. set xs = {a}" by blast
  qed
  ultimately show ?thesis by simp
qed

lemma at_most_first_ragged_iff:
  "at_most_first_ragged nfs \<longleftrightarrow> (\<forall>x\<in>set nfs. \<forall>y\<in>set nfs. x = y)"
proof (cases nfs)
  case Nil
  then show ?thesis by (simp add: at_most_first_ragged_def)
next
  case (Cons a as)
  have "at_most_first_ragged nfs \<longleftrightarrow> (\<forall>x\<in>set nfs. x = a)"
    unfolding Cons by (simp add: at_most_first_ragged_def list_all_iff)
  moreover have "(\<forall>x\<in>set nfs. x = a) \<longleftrightarrow> (\<forall>x\<in>set nfs. \<forall>y\<in>set nfs. x = y)"
  proof
    assume h: "\<forall>x\<in>set nfs. x = a"
    show "\<forall>x\<in>set nfs. \<forall>y\<in>set nfs. x = y"
    proof (intro ballI)
      fix x y
      assume xs: "x \<in> set nfs" and ys: "y \<in> set nfs"
      have "x = a" by (rule bspec [OF h xs])
      also have "a = y" by (rule bspec [OF h ys, symmetric])
      finally show "x = y" .
    qed
  next
    assume h: "\<forall>x\<in>set nfs. \<forall>y\<in>set nfs. x = y"
    have "a \<in> set nfs" unfolding Cons by simp
    then show "\<forall>x\<in>set nfs. x = a"
      by (intro ballI) (rule bspec [OF bspec [OF h]])
  qed
  ultimately show ?thesis by simp
qed

lemma jagged_dtype_error:
  assumes "tensors = [] \<or> (\<exists>a\<in>set tensors. \<exists>b\<in>set tensors. t_dtype a \<noteq> t_dtype b)"
  shows "jagged_from_list tensors offsets dtype device s = (Inl (RuntimeError msg_same_dtype), s)"
proof -
  have "length (remdups (map t_dtype tensors)) \<noteq> 1"
    using assms unfolding remdups_one_iff by auto
  then show ?thesis by (simp add: jagged_from_list_def)
qed

lemma jagged_device_error:
  assumes "length (remdups (map t_dtype tensors)) = 1"
    and "\<exists>a\<in>set tensors. \<exists>b\<in>set tensors. t_device a \<noteq> t_device b"
  shows "jagged_from_list tensors offsets dtype device s = (Inl (RuntimeError msg_same_device), s)"
proof -
  have "length (remdups (map t_device tensors)) \<noteq> 1"
    using assms(2) unfolding remdups_one_iff by auto
  then show ?thesis using assms(1) by (simp add: jagged_from_list_def)
qed

lemma jagged_shape_error:
  assumes "length (remdups (map t_dtype tensors)) = 1"
    and "length (remdups (map t_device tensors)) = 1"
    and "\<exists>a\<in>set tensors. \<exists>b\<in>set tensors. drop 1 (t_shape a) \<noteq> drop 1 (t_shape b)"
  shows "jagged_from_list tensors offsets dtype device s = (Inl (RuntimeError msg_not_jagged), s)"
proof -
  have "\<not> at_most_first_ragged (map (drop 1) (map t_shape tensors))"
    using assms(3) unfolding at_most_first_ragged_iff by auto
  then show ?thesis using assms(1,2) by (simp add: jagged_from_list_def Let_def)
qed

lemma remdups_map_one:
  assumes "xs \<noteq> []" and "\<forall>a\<in>set xs. \<forall>b\<in>set xs. f a = f b"
  shows "length (remdups (map f xs)) = 1"
  unfolding remdups_one_iff
proof (intro conjI ballI)
  show "map f xs \<noteq> []" using assms(1) by simp
next
  fix x y
  assume "x \<in> set (map f xs)" and "y \<in> set (map f xs)"
  then obtain a b where a: "a \<in> set xs" "x = f a" and b: "b \<in> set xs" "y = f b"
    by (auto simp only: set_map image_iff)
  show "x = y" unfolding a(2) b(2) by (rule bspec [OF bspec [OF assms(2) a(1)] b(1)])
qed

text \<open>
  Claim C4, as amended. \<open>jagged_from_list\<close> fails with \<open>RuntimeError\<close>, and leaves the
  state untouched, in each of these cases, checked in this order: the list is empty or two
  elements differ in dtype (the message asks for the same dtype); else two elements are on
  different devices (the message asks for the same device); else two elements differ in
  their shape beyond the leading axis (the message says the list is not representable in
  the jagged layout).
\<close>

theorem jagged_from_list_rejects:
  "((tensors = [] \<or> (\<exists>a\<in>set tensors. \<exists>b\<in>set tensors. t_dtype a \<noteq> t_dtype b)) \<longrightarrow>
      jagged_from_list tensors offsets dtype device s = (Inl (RuntimeError msg_same_dtype), s)) \<and>
   (tensors \<noteq> [] \<and> (\<forall>a\<in>set tensors. \<forall>b\<in>set tensors. t_dtype a = t_dtype b) \<and>
    (\<exists>a\<in>set tensors. \<exists>b\<in>set tensors. t_device a \<noteq> t_device b) \<longrightarrow>
      jagged_from_list tensors offsets dtype device s = (Inl (RuntimeError msg_same_device), s)) \<and>
   (tensors \<noteq> [] \<and> (\<forall>a\<in>set tensors. \<forall>b\<in>set tensors. t_dtype a = t_dtype b) \<and>
    (\<forall>a\<in>set tensors. \<forall>b\<in>set tensors. t_device a = t_device b) \<and>
    (\<exists>a\<in>set tensors. \<exists>b\<in>set tensors. drop 1 (t_shape a) \<noteq> drop 1 (t_shape b)) \<longrightarrow>
      jagged_from_list tensors offsets dtype device s = (Inl (RuntimeError msg_not_jagged), s))"
proof (intro conjI impI)
  assume "tensors = [] \<or> (\<exists>a\<in>set tensors. \<exists>b\<in>set tensors. t_dtype a \<noteq> t_dtype b)"
  then show "jagged_from_list tensors offsets dtype device s = (Inl (RuntimeError msg_same_dtype), s)"
    by (rule jagged_dtype_error)
next
  assume a: "tensors \<noteq> [] \<and> (\<forall>a\<in>set tensors. \<forall>b\<in>set tensors. t_dtype a = t_dtype b) \<and>
    (\<exists>a\<in>set tensors. \<exists>b\<in>set tensors. t_device a \<noteq> t_device b)"
  have d: "length (remdups (map t_dtype tensors)) = 1"
    by (rule remdups_map_one [OF a [THEN conjunct1] a [THEN conjunct2, THEN conjunct1]])
  show "jagged_from_list tensors offsets dtype device s = (Inl (RuntimeError msg_same_device), s)"
    by (rule jagged_device_error [OF d a [THEN conjunct2, THEN conjunct2]])
next
  assume a: "tensors \<noteq> [] \<and> (\<forall>a\<in>set tensors. \<forall>b\<in>set tensors. t_dtype a = t_dtype b) \<and>
    (\<forall>a\<in>set tensors. \<forall>b\<in>set tensors. t_device a = t_device b) \<and>
    (\<exists>a\<in>set tensors. \<exists>b\<in>set tensors. drop 1 (t_shape a) \<noteq> drop 1 (t_shape b))"
  have d: "length (remdups (map t_dtype tensors)) = 1"
    by (rule remdups_map_one [OF a [THEN conjunct1] a [THEN conjunct2, THEN conjunct1]])
  have d2: "length (remdups (map t_device tensors)) = 1"
    by (rule remdups_map_one [OF a [THEN conjunct1] a [THEN conjunct2, THEN conjunct2, THEN conjunct1]])
  show "jagged_from_list tensors offsets dtype device s = (Inl (RuntimeError msg_not_jagged), s)"
    by (rule jagged_shape_error [OF d d2 a [THEN conjunct2, THEN conjunct2, THEN conjunct2]])
qed

text \<open>
  The rejections on examples: the empty list, a float32 with a float64 element, and shapes
  \<open>(3, 4)\<close> with \<open>(5, 5)\<close>.
\<close>

theorem jagged_from_list_rejects_witness:
  "jagged_from_list [] None None None ex_state = (Inl (RuntimeError msg_same_dtype), ex_state) \<and>
   t_dtype ex_a0 \<noteq> t_dtype ex_a1_f64 \<and>
   jagged_from_list [ex_a0, ex_a1_f64] None None None ex_state =
     (Inl (RuntimeError msg_same_dtype), ex_state) \<and>
   drop 1 (t_shape ex_a0) \<noteq> drop 1 (t_shape ex_b1) \<and>
   jagged_from_list [ex_a0, ex_b1] None None None ex_state =
     (Inl (RuntimeError msg_not_jagged), ex_state)"
proof -
  note t0 = jagged_from_list_rejects [of "[]" None None None ex_state, THEN conjunct1, THEN mp]
  note t1 = jagged_from_list_rejects [of "[ex_a0, ex_a1_f64]" None None None ex_state,
      THEN conjunct1, THEN mp]
  note t2 = jagged_from_list_rejects [of "[ex_a0, ex_b1]" None None None ex_state,
      THEN conjunct2, THEN conjunct2, THEN mp]
  have a0: "jagged_from_list [] None None None ex_state = (Inl (RuntimeError msg_same_dtype), ex_state)"
    by (rule t0) simp
  have h1: "t_dtype ex_a0 \<noteq> t_dtype ex_a1_f64" by (simp add: ex_a0_def ex_a1_f64_def ex_a1_def)
  have a1: "jagged_from_list [ex_a0, ex_a1_f64] None None None ex_state =
     (Inl (RuntimeError msg_same_dtype), ex_state)"
    by (rule t1, rule disjI2, rule bexI [of _ ex_a0], rule bexI [of _ ex_a1_f64], rule h1) simp_all
  have h2: "drop 1 (t_shape ex_a0) \<noteq> drop 1 (t_shape ex_b1)" by (simp add: ex_a0_def ex_b1_def)
  have e: "\<exists>a\<in>set [ex_a0, ex_b1]. \<exists>b\<in>set [ex_a0, ex_b1]. drop 1 (t_shape a) \<noteq> drop 1 (t_shape b)"
    by (rule bexI [of _ ex_a0], rule bexI [of _ ex_b1], rule h2) simp_all
  have d1: "\<forall>a\<in>set [ex_a0, ex_b1]. \<forall>b\<in>set [ex_a0, ex_b1]. t_dtype a = t_dtype b"
    by (simp add: ex_a0_def ex_b1_def)
  have d2: "\<forall>a\<in>set [ex_a0, ex_b1]. \<forall>b\<in>set [ex_a0, ex_b1]. t_device a = t_device b"
    by (simp add: ex_a0_def ex_b1_def)
  have a2: "jagged_from_list [ex_a0, ex_b1] None None None ex_state =
     (Inl (RuntimeError msg_not_jagged), ex_state)"
    by (rule t2) (intro conjI d1 d2 e, simp)
  show ?thesis by (intro conjI a0 h1 a1 h2 a2)
qed

text \<open>
  Claim C4 as stated fails on the class of the exception: the empty list and the mixed
  dtypes raise \<open>RuntimeError\<close>, not \<open>ValueError\<close>, and the mismatched trailing shapes
  raise \<open>RuntimeError\<close>, not \<open>ShapeError\<close>.
\<close>

theorem jagged_error_class_counterexample:
  "fst (jagged_from_list [] None None None ex_state) = Inl (Exn ''RuntimeError'' msg_same_dtype) \<and>
   fst (jagged_from_list [ex_a0, ex_a1_f64] None None None ex_state) =
     Inl (Exn ''RuntimeError'' msg_same_dtype) \<and>
   exn_class (Exn ''RuntimeError'' msg_same_dtype) \<noteq> ''ValueError'' \<and>
   fst (jagged_from_list [ex_a0, ex_b1] None None None ex_state) =
     Inl (Exn ''RuntimeError'' msg_not_jagged) \<and>
   exn_class (Exn ''RuntimeError'' msg_not_jagged) \<noteq> ''ShapeError''"
  by (simp add: jagged_from_list_def RuntimeError_def ex_a0_def ex_a1_f64_def ex_a1_def ex_b1_def
      at_most_first_ragged_def Let_def)


subsection \<open>The computed offsets\<close>

lemma py_index_0: "sz \<noteq> [] \<Longrightarrow> py_index sz 0 = Inr (hd sz)"
  by (cases sz) (simp_all add: py_index_def)

lemma first_sizes_ok:
  "\<forall>t\<in>set ts. t_shape t \<noteq> [] \<Longrightarrow>
     first_sizes (map t_shape ts) = Inr (map (\<lambda>t. hd (t_shape t)) ts)"
  by (induction ts) (simp_all add: py_index_0)

lemma symint_sum_IntVal: "symint_sum (map IntVal ns) = IntVal (sum_list ns)"
  by (induction ns) (simp_all add: symint_add_def)

lemma concrete_ints_IntVal: "concrete_ints (map IntVal ns) = Some ns"
  by (induction ns) simp_all

lemma prefix_sums_Nil: "prefix_sums [] = []"
  by (simp add: prefix_sums_def)

lemma prefix_sums_Cons: "prefix_sums (x # xs) = x # map ((+) x) (prefix_sums xs)"
proof -
  have "[0..<Suc (length xs)] = 0 # map Suc [0..<length xs]"
    by (simp add: upt_conv_Cons map_Suc_upt del: upt_Suc)
  then show ?thesis
    by (simp add: prefix_sums_def comp_def del: upt_Suc)
qed

lemma running_sums_prefix:
  "running_sums acc (map word_of_int xs) = map (\<lambda>p. acc + word_of_int p) (prefix_sums xs)"
proof (induction xs arbitrary: acc)
  case Nil
  then show ?case by (simp add: prefix_sums_Nil)
next
  case (Cons x xs)
  show ?case
    by (simp add: prefix_sums_Cons Cons.IH comp_def add.assoc)
qed

lemma contiguous_stride_nonempty: "shp \<noteq> [] \<Longrightarrow> contiguous_stride shp \<noteq> []"
  by (cases shp) simp_all

lemma torch_cat_ok:
  assumes "tensors \<noteq> []" and "\<forall>t\<in>set tensors. t_shape t \<noteq> []"
  shows "torch_cat tensors s =
     (Inr \<lparr>t_id = next_tid s,
           t_shape = symint_sum (map (\<lambda>t. hd (t_shape t)) tensors) # drop 1 (t_shape (hd tensors)),
           t_stride = contiguous_stride
             (symint_sum (map (\<lambda>t. hd (t_shape t)) tensors) # drop 1 (t_shape (hd tensors))),
           t_dtype = t_dtype (hd tensors), t_device = t_device (hd tensors),
           t_data = concat (map t_data tensors)\<rparr>,
      s\<lparr>next_tid := Suc (next_tid s)\<rparr>)"
proof (cases tensors)
  case Nil
  then show ?thesis using assms(1) by simp
next
  case (Cons t0 rest)
  have fs: "first_sizes (map t_shape tensors) = Inr (map (\<lambda>t. hd (t_shape t)) tensors)"
    by (rule first_sizes_ok [OF assms(2)])
  show ?thesis
    unfolding torch_cat_def fs unfolding Cons by (simp add: Let_def)
qed

lemma tensor_to_shape:
  "t_shape (fst (tensor_to t dev dt s)) = t_shape t \<and>
   t_stride (fst (tensor_to t dev dt s)) = t_stride t \<and>
   t_data (fst (tensor_to t dev dt s)) = t_data t \<and>
   t_device (fst (tensor_to t dev dt s)) = (case dev of None \<Rightarrow> t_device t | Some d \<Rightarrow> d) \<and>
   t_dtype (fst (tensor_to t dev dt s)) = (case dt of None \<Rightarrow> t_dtype t | Some d \<Rightarrow> d)"
  by (cases dev; cases dt) (simp_all add: tensor_to_def Let_def)

lemma torch_cat_offsets:
  assumes "t_shape z = [IntVal 1]" and "t_shape cs = [IntVal n]"
  shows "torch_cat [z, cs] s =
     (Inr \<lparr>t_id = next_tid s, t_shape = [IntVal (1 + n)], t_stride = [IntVal 1],
           t_dtype = t_dtype z, t_device = t_device z,
           t_data = t_data z @ t_data cs\<rparr>,
      s\<lparr>next_tid := Suc (next_tid s)\<rparr>)"
  by (simp add: torch_cat_def py_index_def assms Let_def symint_add_def)

lemma jagged_from_list_offsets:
  assumes c1: "length (remdups (map t_dtype tensors)) = 1"
    and c2: "length (remdups (map t_device tensors)) = 1"
    and c3: "at_most_first_ragged (map (drop 1) (map t_shape tensors))"
    and ne: "tensors \<noteq> []"
    and rank: "\<forall>t\<in>set tensors. t_shape t \<noteq> []"
    and lens: "map (\<lambda>t. hd (t_shape t)) tensors = map IntVal lens"
    and v: "torch_cat tensors s = (Inr values0, s1)"
    and t: "tensor_to values0 device dtype s1 = (vals, s2)"
  shows "jagged_from_list tensors None dtype device s =
      return_view vals
        \<lparr>t_id = next_tid s2 + 3, t_shape = [IntVal (1 + int (length tensors))],
         t_stride = [IntVal 1], t_dtype = Int64, t_device = t_device vals,
         t_data = 0 # running_sums 0 (map word_of_int lens)\<rparr>
        (s2\<lparr>next_tid := next_tid s2 + 4\<rparr>)"
proof -
  have fs: "first_sizes (map t_shape tensors) = Inr (map IntVal lens)"
    using first_sizes_ok [OF rank] unfolding lens .
  have len: "length lens = length tensors"
    using arg_cong [OF lens, of length] by simp
  have lne: "lens \<noteq> []" using ne len by (cases lens) simp_all
  let ?z = "\<lparr>t_id = next_tid s2, t_shape = [IntVal 1], t_stride = [IntVal 1], t_dtype = Int64,
       t_device = t_device vals, t_data = [0]\<rparr>"
  let ?lt = "\<lparr>t_id = Suc (next_tid s2), t_shape = [IntVal (int (length tensors))],
       t_stride = [IntVal 1], t_dtype = Int64, t_device = t_device vals,
       t_data = map word_of_int lens\<rparr>"
  let ?cs = "\<lparr>t_id = Suc (Suc (next_tid s2)), t_shape = [IntVal (int (length tensors))],
       t_stride = [IntVal 1], t_dtype = Int64, t_device = t_device vals,
       t_data = running_sums 0 (map word_of_int lens)\<rparr>"
  let ?off = "\<lparr>t_id = next_tid s2 + 3, t_shape = [IntVal (1 + int (length tensors))],
         t_stride = [IntVal 1], t_dtype = Int64, t_device = t_device vals,
         t_data = 0 # running_sums 0 (map word_of_int lens)\<rparr>"
  have z: "torch_zeros1 Int64 (t_device vals) s2 = (?z, s2\<lparr>next_tid := Suc (next_tid s2)\<rparr>)"
    by (simp add: torch_zeros1_def)
  have lt: "torch_tensor (map IntVal lens) (t_device vals) (s2\<lparr>next_tid := Suc (next_tid s2)\<rparr>) =
      (Inr ?lt, s2\<lparr>next_tid := Suc (Suc (next_tid s2))\<rparr>)"
    using lne by (simp add: torch_tensor_def concrete_ints_IntVal len)
  have cs: "tensor_cumsum ?lt (s2\<lparr>next_tid := Suc (Suc (next_tid s2))\<rparr>) =
      (?cs, s2\<lparr>next_tid := Suc (Suc (Suc (next_tid s2)))\<rparr>)"
    by (simp add: tensor_cumsum_def)
  have cat: "torch_cat [?z, ?cs] (s2\<lparr>next_tid := Suc (Suc (Suc (next_tid s2)))\<rparr>) =
     (Inr ?off, s2\<lparr>next_tid := next_tid s2 + 4\<rparr>)"
    by (simp add: torch_cat_offsets [where n = "int (length tensors)"])
  show ?thesis
    unfolding jagged_from_list_def Let_def
    by (simp only: c1 c2 c3 v t z fs lt cs cat if_False if_True not_True_eq_False simp_thms
        prod.case sum.case option.case)
qed

lemma sint_word_of_int_small:
  "0 \<le> p \<Longrightarrow> p < 2 ^ 63 \<Longrightarrow> sint (word_of_int p :: 64 word) = p"
  by (simp add: sint_sbintrunc' signed_take_bit_int_eq_self)

lemma prefix_sums_bounds:
  "\<forall>x\<in>set xs. 0 \<le> x \<Longrightarrow> \<forall>p\<in>set (prefix_sums xs). 0 \<le> p \<and> p \<le> sum_list xs"
proof (induction xs)
  case Nil
  then show ?case by (simp add: prefix_sums_Nil)
next
  case (Cons x xs)
  then have ih: "\<forall>p\<in>set (prefix_sums xs). 0 \<le> p \<and> p \<le> sum_list xs" by simp
  have x: "0 \<le> x" using Cons.prems by simp
  have s: "0 \<le> sum_list xs" using Cons.prems by (simp add: sum_list_nonneg)
  show ?case
    unfolding prefix_sums_Cons using ih x s by auto
qed

lemma sint_prefix_sums:
  assumes "\<forall>x\<in>set xs. 0 \<le> x" and "sum_list xs < 2 ^ 63"
  shows "map sint (map word_of_int (0 # prefix_sums xs) :: 64 word list) = 0 # prefix_sums xs"
proof -
  have "\<forall>p\<in>set (prefix_sums xs). sint (word_of_int p :: 64 word) = p"
  proof
    fix p assume "p \<in> set (prefix_sums xs)"
    then have "0 \<le> p \<and> p \<le> sum_list xs" using prefix_sums_bounds [OF assms(1)] by blast
    then show "sint (word_of_int p :: 64 word) = p"
      using assms(2) by (intro sint_word_of_int_small) simp_all
  qed
  then have "map (\<lambda>p. sint (word_of_int p :: 64 word)) (prefix_sums xs) = prefix_sums xs"
    by (simp add: map_idI)
  then show ?thesis by (simp add: comp_def)
qed

text \<open>
  Claim C5. Take a non-empty list of tensors of rank at least 1 that agree in dtype, in
  device and in their shape beyond the leading axis, with leading lengths the plain ints
  \<open>lens\<close>. Called without offsets, \<open>jagged_from_list\<close> returns a wrapper together with
  the offsets buffer it computed.

  The buffer is a rank-1 int64 tensor with one more entry than the list has elements; its
  entries are \<open>0\<close> followed by the prefix sums \<open>len_0, len_0 + len_1, ...\<close> of the
  leading lengths, as 64-bit integers (read as signed integers they are exactly these sums
  when the lengths are not negative and their total is below \<open>2^63\<close>). It lies on the
  device of the values buffer, which is the requested device, or the elements' device when
  none is requested.

  The wrapper is the one the constructor returns for the values buffer and that offsets
  buffer, called without \<open>requires_grad\<close> on the counter and registry the helper was
  entered with; the state returned is the state the constructor leaves. The wrapper holds
  both objects; the values buffer is the concatenation of the elements, in the
  requested dtype; the wrapper's ragged symbol is the one the registry holds for the
  returned offsets after the call; its shape is \<open>(len(tensors), symbol, *trailing)\<close> and
  its stride \<open>(symbol * values.stride[0], *values.stride)\<close>; its ragged index is 1, it
  does not require grad, and it has the dtype and device of the values buffer.
\<close>

theorem jagged_from_list_computes_offsets:
  assumes ne: "tensors \<noteq> []"
    and dt: "\<forall>a\<in>set tensors. \<forall>b\<in>set tensors. t_dtype a = t_dtype b"
    and dv: "\<forall>a\<in>set tensors. \<forall>b\<in>set tensors. t_device a = t_device b"
    and tr: "\<forall>a\<in>set tensors. \<forall>b\<in>set tensors. drop 1 (t_shape a) = drop 1 (t_shape b)"
    and rank: "\<forall>t\<in>set tensors. t_shape t \<noteq> []"
    and lens: "map (\<lambda>t. hd (t_shape t)) tensors = map IntVal lens"
  shows "\<exists>nt offs vals symb s0 s'.
     jagged_from_list tensors None dtype device s = (Inr (nt, offs), s') \<and>
     NestedTensor (Plain vals) (Some offs) None s0 = (Inr nt, s') \<and>
     tensor_id_counter s0 = tensor_id_counter s \<and>
     tensor_symint_registry s0 = tensor_symint_registry s \<and>
     nt_offsets nt = Some offs \<and> nt_values nt = Some vals \<and>
     t_dtype offs = Int64 \<and> t_shape offs = [IntVal (1 + int (length tensors))] \<and>
     t_data offs = map word_of_int (0 # prefix_sums lens) \<and>
     ((\<forall>x\<in>set lens. 0 \<le> x) \<and> sum_list lens < 2 ^ 63 \<longrightarrow>
        map sint (t_data offs) = 0 # prefix_sums lens) \<and>
     t_device offs = t_device vals \<and>
     t_device vals = (case device of None \<Rightarrow> t_device (hd tensors) | Some d \<Rightarrow> d) \<and>
     t_dtype vals = (case dtype of None \<Rightarrow> t_dtype (hd tensors) | Some d \<Rightarrow> d) \<and>
     t_shape vals = IntVal (sum_list lens) # drop 1 (t_shape (hd tensors)) \<and>
     t_stride vals = contiguous_stride (t_shape vals) \<and>
     t_data vals = concat (map t_data tensors) \<and>
     tensor_symint_registry s' (t_id offs) = Some symb \<and>
     nt_size nt = Some (IntVal (int (length tensors)) # symb # drop 1 (t_shape (hd tensors))) \<and>
     nt_strides nt = Some (symint_mul symb (hd (t_stride vals)) # t_stride vals) \<and>
     nt_ragged_idx nt = Some 1 \<and> nt_requires_grad nt = False \<and>
     nt_dtype nt = t_dtype vals \<and> nt_device nt = t_device vals"
proof -
  let ?shp = "IntVal (sum_list lens) # drop 1 (t_shape (hd tensors))"
  let ?values0 = "\<lparr>t_id = next_tid s, t_shape = ?shp, t_stride = contiguous_stride ?shp,
           t_dtype = t_dtype (hd tensors), t_device = t_device (hd tensors),
           t_data = concat (map t_data tensors)\<rparr>"
  let ?s1 = "s\<lparr>next_tid := Suc (next_tid s)\<rparr>"
  have c1: "length (remdups (map t_dtype tensors)) = 1" by (rule remdups_map_one [OF ne dt])
  have c2: "length (remdups (map t_device tensors)) = 1" by (rule remdups_map_one [OF ne dv])
  have c3: "at_most_first_ragged (map (drop 1) (map t_shape tensors))"
    unfolding at_most_first_ragged_iff
  proof (intro ballI)
    fix x y
    assume "x \<in> set (map (drop 1) (map t_shape tensors))"
      and "y \<in> set (map (drop 1) (map t_shape tensors))"
    then obtain a b where a: "a \<in> set tensors" "x = drop 1 (t_shape a)"
      and b: "b \<in> set tensors" "y = drop 1 (t_shape b)"
      by (auto simp only: set_map image_iff)
    show "x = y" unfolding a(2) b(2) by (rule bspec [OF bspec [OF tr a(1)] b(1)])
  qed
  have v: "torch_cat tensors s = (Inr ?values0, ?s1)"
    using torch_cat_ok [OF ne rank, of s] unfolding lens symint_sum_IntVal .
  define vals where "vals = fst (tensor_to ?values0 device dtype ?s1)"
  define s2 where "s2 = snd (tensor_to ?values0 device dtype ?s1)"
  have t: "tensor_to ?values0 device dtype ?s1 = (vals, s2)"
    unfolding vals_def s2_def by simp
  note ts = tensor_to_shape [of ?values0 device dtype ?s1, folded vals_def]
  have vshape: "t_shape vals = ?shp" using ts by simp
  have vstride: "t_stride vals = contiguous_stride (t_shape vals)" using ts by simp
  have vdata: "t_data vals = concat (map t_data tensors)" using ts by simp
  have vdev: "t_device vals = (case device of None \<Rightarrow> t_device (hd tensors) | Some d \<Rightarrow> d)"
    using ts by (cases device) simp_all
  have vdt: "t_dtype vals = (case dtype of None \<Rightarrow> t_dtype (hd tensors) | Some d \<Rightarrow> d)"
    using ts by (cases dtype) simp_all
  have "t_stride vals \<noteq> []" unfolding vstride vshape by (simp add: contiguous_stride_nonempty)
  then obtain st0 rest where st: "t_stride vals = st0 # rest" by (cases "t_stride vals") simp_all
  let ?off = "\<lparr>t_id = next_tid s2 + 3, t_shape = [IntVal (1 + int (length tensors))],
         t_stride = [IntVal 1], t_dtype = Int64, t_device = t_device vals,
         t_data = 0 # running_sums 0 (map word_of_int lens)\<rparr>"
  let ?s6 = "s2\<lparr>next_tid := next_tid s2 + 4\<rparr>"
  have j: "jagged_from_list tensors None dtype device s = return_view vals ?off ?s6"
    by (rule jagged_from_list_offsets [OF c1 c2 c3 ne rank lens v t])
  define symb where "symb = (case tensor_symint_registry ?s6 (t_id ?off) of
             None \<Rightarrow> Singleton (tensor_id_counter ?s6) 1 | Some y \<Rightarrow> y)"
  define s7 where "s7 = snd (get_tensor_symint ?off 1 ?s6)"
  note res = get_tensor_symint_resolved [of ?off 1 ?s6, folded symb_def s7_def]
  have g: "get_tensor_symint ?off 1 ?s6 = (Inr symb, s7)" by (rule res [THEN conjunct1])
  have reg: "tensor_symint_registry (s7\<lparr>next_tid := Suc (next_tid ?s6)\<rparr>) (t_id ?off) = Some symb"
    using res [THEN conjunct2] by simp
  have shp_off: "t_shape ?off = [IntVal (1 + int (length tensors))]" by simp
  have ng: "(None :: bool option) = Some True \<longrightarrow> is_floating_point (t_dtype vals)" by simp
  let ?nt = "\<lparr>nt_id = next_tid ?s6,
           nt_requires_grad = (case (None :: bool option) of None \<Rightarrow> False | Some b \<Rightarrow> b),
           nt_dtype = t_dtype vals, nt_device = t_device vals,
           nt_size = Some (symint_sub (IntVal (1 + int (length tensors))) 1 # symb # drop 1 (t_shape vals)),
           nt_strides = Some (symint_mul symb st0 # st0 # rest),
           nt_ragged_idx = Some 1, nt_values = Some vals, nt_offsets = Some ?off\<rparr>"
  have n: "NestedTensor (Plain vals) (Some ?off) None ?s6 = (Inr ?nt, s7\<lparr>next_tid := Suc (next_tid ?s6)\<rparr>)"
    by (rule NestedTensor_success [OF shp_off st g ng])
  have r: "jagged_from_list tensors None dtype device s = (Inr (?nt, ?off), s7\<lparr>next_tid := Suc (next_tid ?s6)\<rparr>)"
    unfolding j return_view_def nested_view_from_values_offsets_def n by simp
  have s2c: "tensor_id_counter s2 = tensor_id_counter s \<and>
      tensor_symint_registry s2 = tensor_symint_registry s"
    unfolding s2_def by (simp add: tensor_to_def Let_def)
  have fr1: "tensor_id_counter ?s6 = tensor_id_counter s" using s2c by simp
  have fr2: "tensor_symint_registry ?s6 = tensor_symint_registry s" using s2c by simp
  have rs: "running_sums 0 (map word_of_int lens) = map word_of_int (prefix_sums lens)"
    using running_sums_prefix [of 0 lens] by (simp only: add_0_left)
  have d: "t_data ?off = map word_of_int (0 # prefix_sums lens)"
    by (simp add: rs del: map_map)
  have si: "(\<forall>x\<in>set lens. 0 \<le> x) \<and> sum_list lens < 2 ^ 63 \<longrightarrow>
        map sint (t_data ?off) = 0 # prefix_sums lens"
  proof
    assume a: "(\<forall>x\<in>set lens. 0 \<le> x) \<and> sum_list lens < 2 ^ 63"
    show "map sint (t_data ?off) = 0 # prefix_sums lens"
      unfolding d by (rule sint_prefix_sums [OF a [THEN conjunct1] a [THEN conjunct2]])
  qed
  have f1: "nt_offsets ?nt = Some ?off" "nt_values ?nt = Some vals" "t_dtype ?off = Int64"
    "t_shape ?off = [IntVal (1 + int (length tensors))]" "t_device ?off = t_device vals"
    by simp_all
  have f2: "nt_size ?nt = Some (IntVal (int (length tensors)) # symb # drop 1 (t_shape (hd tensors)))"
    by (simp add: vshape symint_sub_def)
  have f3: "nt_strides ?nt = Some (symint_mul symb (hd (t_stride vals)) # t_stride vals)"
    by (simp add: st)
  have f4: "nt_ragged_idx ?nt = Some 1" "nt_requires_grad ?nt = False"
    "nt_dtype ?nt = t_dtype vals" "nt_device ?nt = t_device vals"
    by simp_all
  show ?thesis
    by (rule exI [of _ ?nt], rule exI [of _ ?off], rule exI [of _ vals], rule exI [of _ symb],
        rule exI [of _ ?s6], rule exI [of _ "s7\<lparr>next_tid := Suc (next_tid ?s6)\<rparr>"])
       (intro conjI r n fr1 fr2 f1 d si vdev vdt vshape vstride vdata reg f2 f3 f4)
qed

text \<open>
  The specification's example: elements of shape \<open>(3, 4)\<close> and \<open>(5, 4)\<close> give the
  offsets \<open>[0, 3, 8]\<close>, a values buffer of shape \<open>(8, 4)\<close> and stride \<open>(4, 1)\<close>, and a
  wrapper of shape \<open>(2, symbol, 4)\<close> and stride \<open>(4 * symbol, 4, 1)\<close>.
\<close>

theorem jagged_from_list_computes_offsets_witness:
  "[ex_a0, ex_a1] \<noteq> [] \<and>
   map (\<lambda>t. hd (t_shape t)) [ex_a0, ex_a1] = map IntVal [3, 5] \<and>
   (\<exists>nt offs vals symb s0 s'.
     jagged_from_list [ex_a0, ex_a1] None None None ex_state = (Inr (nt, offs), s') \<and>
     NestedTensor (Plain vals) (Some offs) None s0 = (Inr nt, s') \<and>
     nt_offsets nt = Some offs \<and> nt_values nt = Some vals \<and>
     t_dtype offs = Int64 \<and> t_shape offs = [IntVal 3] \<and>
     t_data offs = [0, 3, 8] \<and> map sint (t_data offs) = [0, 3, 8] \<and>
     t_device offs = t_device vals \<and> t_device vals = CPU \<and> t_dtype vals = Float32 \<and>
     t_shape vals = [IntVal 8, IntVal 4] \<and> t_stride vals = [IntVal 4, IntVal 1] \<and>
     tensor_symint_registry s' (t_id offs) = Some symb \<and>
     nt_size nt = Some [IntVal 2, symb, IntVal 4] \<and>
     nt_strides nt = Some [symint_mul symb (IntVal 4), IntVal 4, IntVal 1] \<and>
     nt_ragged_idx nt = Some 1 \<and> nt_requires_grad nt = False \<and>
     nt_dtype nt = Float32 \<and> nt_device nt = CPU)"
proof -
  have ne: "[ex_a0, ex_a1] \<noteq> []" by simp
  have dt: "\<forall>a\<in>set [ex_a0, ex_a1]. \<forall>b\<in>set [ex_a0, ex_a1]. t_dtype a = t_dtype b"
    by (simp add: ex_a0_def ex_a1_def)
  have dv: "\<forall>a\<in>set [ex_a0, ex_a1]. \<forall>b\<in>set [ex_a0, ex_a1]. t_device a = t_device b"
    by (simp add: ex_a0_def ex_a1_def)
  have tr: "\<forall>a\<in>set [ex_a0, ex_a1]. \<forall>b\<in>set [ex_a0, ex_a1].
      drop 1 (t_shape a) = drop 1 (t_shape b)"
    by (simp add: ex_a0_def ex_a1_def)
  have rank: "\<forall>t\<in>set [ex_a0, ex_a1]. t_shape t \<noteq> []"
    by (simp add: ex_a0_def ex_a1_def)
  have lens: "map (\<lambda>t. hd (t_shape t)) [ex_a0, ex_a1] = map IntVal [3, 5]"
    by (simp add: ex_a0_def ex_a1_def)
  have ps: "prefix_sums [3, 5] = [3, 8]"
    by (simp add: prefix_sums_Cons prefix_sums_Nil)
  obtain nt offs vals symb s0 s' where
    j: "jagged_from_list [ex_a0, ex_a1] None None None ex_state = (Inr (nt, offs), s')"
    and c: "NestedTensor (Plain vals) (Some offs) None s0 = (Inr nt, s')"
    and c1: "tensor_id_counter s0 = tensor_id_counter ex_state"
    and c2: "tensor_symint_registry s0 = tensor_symint_registry ex_state"
    and o: "nt_offsets nt = Some offs" and v: "nt_values nt = Some vals"
    and d1: "t_dtype offs = Int64" and d2: "t_shape offs = [IntVal (1 + int (length [ex_a0, ex_a1]))]"
    and d3: "t_data offs = map word_of_int (0 # prefix_sums [3, 5])"
    and d4: "(\<forall>x\<in>set [3, 5 :: int]. 0 \<le> x) \<and> sum_list [3, 5 :: int] < 2 ^ 63 \<longrightarrow>
        map sint (t_data offs) = 0 # prefix_sums [3, 5]"
    and d5: "t_device offs = t_device vals"
    and d6: "t_device vals = (case None of None \<Rightarrow> t_device (hd [ex_a0, ex_a1]) | Some d \<Rightarrow> d)"
    and d6': "t_dtype vals = (case None of None \<Rightarrow> t_dtype (hd [ex_a0, ex_a1]) | Some d \<Rightarrow> d)"
    and d7: "t_shape vals = IntVal (sum_list [3, 5]) # drop 1 (t_shape (hd [ex_a0, ex_a1]))"
    and d8: "t_stride vals = contiguous_stride (t_shape vals)"
    and d9: "t_data vals = concat (map t_data [ex_a0, ex_a1])"
    and w1: "tensor_symint_registry s' (t_id offs) = Some symb"
    and w2: "nt_size nt = Some (IntVal (int (length [ex_a0, ex_a1])) # symb # drop 1 (t_shape (hd [ex_a0, ex_a1])))"
    and w3: "nt_strides nt = Some (symint_mul symb (hd (t_stride vals)) # t_stride vals)"
    and w4: "nt_ragged_idx nt = Some 1" and w5: "nt_requires_grad nt = False"
    and w6: "nt_dtype nt = t_dtype vals" and w7: "nt_device nt = t_device vals"
    using jagged_from_list_computes_offsets [OF ne dt dv tr rank lens, of None None ex_state]
    by (elim exE conjE)
  have e2: "t_shape offs = [IntVal 3]" using d2 by simp
  have e3: "t_data offs = [0, 3, 8]" unfolding d3 ps by simp
  have e4: "map sint (t_data offs) = [0, 3, 8]" unfolding e3 by simp
  have e6: "t_device vals = CPU" using d6 by (simp add: ex_a0_def)
  have e6': "t_dtype vals = Float32" using d6' by (simp add: ex_a0_def)
  have e7: "t_shape vals = [IntVal 8, IntVal 4]" unfolding d7 by (simp add: ex_a0_def)
  have e8: "t_stride vals = [IntVal 4, IntVal 1]"
    unfolding d8 e7 by (simp add: clamp_dim_def symint_mul_def)
  have x2: "nt_size nt = Some [IntVal 2, symb, IntVal 4]" unfolding w2 by (simp add: ex_a0_def)
  have x3: "nt_strides nt = Some [symint_mul symb (IntVal 4), IntVal 4, IntVal 1]"
    unfolding w3 e8 by simp
  have x6: "nt_dtype nt = Float32" unfolding w6 e6' ..
  have x7: "nt_device nt = CPU" unfolding w7 e6 ..
  show ?thesis
    by (rule conjI [OF ne], rule conjI [OF lens], rule exI [of _ nt], rule exI [of _ offs],
        rule exI [of _ vals], rule exI [of _ symb], rule exI [of _ s0], rule exI [of _ s'])
       (intro conjI j c o v d1 e2 e3 e4 d5 e6 e6' e7 e8 w1 x2 x3 w4 w5 x6 x7)
qed

section \<open>Claims about dispatch\<close>

text \<open>
  Claim C6. When the rule table has no rule for the operation, \<open>__torch_dispatch__\<close>
  raises \<open>NotImplementedError\<close> whose argument is the operation, without calling the
  operation and without changing the state; when the table has a rule, the result is what
  the rule returns on the same arguments, unchanged.
\<close>

theorem torch_dispatch_rule_or_error:
  "(lookup_jagged func args (case kwargs of None \<Rightarrow> [] | Some kw \<Rightarrow> kw) = None \<longrightarrow>
      torch_dispatch lookup_jagged func args kwargs s =
        (Inl (Exn ''NotImplementedError'' (op_name func)), s)) \<and>
   (\<forall>fn. lookup_jagged func args (case kwargs of None \<Rightarrow> [] | Some kw \<Rightarrow> kw) = Some fn \<longrightarrow>
      torch_dispatch lookup_jagged func args kwargs s =
        fn args (case kwargs of None \<Rightarrow> [] | Some kw \<Rightarrow> kw) s)"
  by (simp add: torch_dispatch_def Let_def)

text \<open>C6 on an empty rule table and on a table with a rule that counts its arguments.\<close>

theorem torch_dispatch_rule_or_error_witness:
  "torch_dispatch (\<lambda>f a k. None) (Op ''aten.sin'' (\<lambda>a k s. (Inr (0::nat), s))) [Wrapper ex_wrapper]
      None ex_state = (Inl (Exn ''NotImplementedError'' ''aten.sin''), ex_state) \<and>
   torch_dispatch (\<lambda>f a k. if op_name f = ''aten.sin'' then Some (\<lambda>a k s. (Inr (length a), s)) else None)
      (Op ''aten.sin'' (\<lambda>a k s. (Inr (0::nat), s))) [Wrapper ex_wrapper] None ex_state =
     (Inr 1, ex_state)"
proof -
  note a = torch_dispatch_rule_or_error [of "\<lambda>f a k. None"
      "Op ''aten.sin'' (\<lambda>a k s. (Inr (0::nat), s))" "[Wrapper ex_wrapper]" None ex_state,
      THEN conjunct1, THEN mp]
  note b = torch_dispatch_rule_or_error [of
      "\<lambda>f a k. if op_name f = ''aten.sin'' then Some (\<lambda>a k s. (Inr (length a), s)) else None"
      "Op ''aten.sin'' (\<lambda>a k s. (Inr (0::nat), s))" "[Wrapper ex_wrapper]" None ex_state,
      THEN conjunct2, THEN spec, THEN mp]
  have a': "torch_dispatch (\<lambda>f a k. None) (Op ''aten.sin'' (\<lambda>a k s. (Inr (0::nat), s))) [Wrapper ex_wrapper]
      None ex_state = (Inl (Exn ''NotImplementedError'' ''aten.sin''), ex_state)"
    using a by simp
  have b': "torch_dispatch (\<lambda>f a k. if op_name f = ''aten.sin'' then Some (\<lambda>a k s. (Inr (length a), s)) else None)
      (Op ''aten.sin'' (\<lambda>a k s. (Inr (0::nat), s))) [Wrapper ex_wrapper] None ex_state =
     (Inr 1, ex_state)"
    using b [of "\<lambda>a k s. (Inr (length a), s)"] by simp
  show ?thesis by (intro conjI a' b')
qed

text \<open>
  Claim C7. When the function-level rule raises \<open>NotImplementedError\<close>,
  \<open>__torch_function__\<close> does not raise it: it calls the operation on the same arguments
  with subclass interception switched off, returns whatever that call returns, and puts the
  interception flag back as it was. When the rule returns, its result is returned. (Any
  other exception of the rule is passed on.)
\<close>

theorem torch_function_fallthrough:
  "(\<forall>e s1. jagged_torch_function func args (case kwargs of None \<Rightarrow> [] | Some kw \<Rightarrow> kw) s = (Inl e, s1) \<and>
        exn_class e = ''NotImplementedError'' \<longrightarrow>
      torch_function jagged_torch_function func args kwargs s =
        (fst (op_call func args (case kwargs of None \<Rightarrow> [] | Some kw \<Rightarrow> kw)
                (s1\<lparr>torch_function_subclass_enabled := False\<rparr>)),
         (snd (op_call func args (case kwargs of None \<Rightarrow> [] | Some kw \<Rightarrow> kw)
                (s1\<lparr>torch_function_subclass_enabled := False\<rparr>)))
           \<lparr>torch_function_subclass_enabled := torch_function_subclass_enabled s1\<rparr>)) \<and>
   (\<forall>r s1. jagged_torch_function func args (case kwargs of None \<Rightarrow> [] | Some kw \<Rightarrow> kw) s = (Inr r, s1) \<longrightarrow>
      torch_function jagged_torch_function func args kwargs s = (Inr r, s1)) \<and>
   (\<forall>e s1. jagged_torch_function func args (case kwargs of None \<Rightarrow> [] | Some kw \<Rightarrow> kw) s = (Inl e, s1) \<and>
        exn_class e \<noteq> ''NotImplementedError'' \<longrightarrow>
      torch_function jagged_torch_function func args kwargs s = (Inl e, s1))"
  by (simp add: torch_function_def Let_def split: prod.splits)

text \<open>
  C7 on an operation that reports the interception flag: after a rule that declines, the
  operation sees the flag cleared, and the flag is set again afterwards.
\<close>

theorem torch_function_fallthrough_witness:
  "torch_function (\<lambda>f a k s. (Inl (Exn ''NotImplementedError'' ''''), s))
      (Op ''is_contiguous'' (\<lambda>a k s. (Inr (torch_function_subclass_enabled s), s)))
      [Wrapper ex_wrapper] None ex_state = (Inr False, ex_state) \<and>
   torch_function_subclass_enabled ex_state \<and>
   torch_function (\<lambda>f a k s. (Inr True, s))
      (Op ''is_contiguous'' (\<lambda>a k s. (Inr (torch_function_subclass_enabled s), s)))
      [Wrapper ex_wrapper] None ex_state = (Inr True, ex_state)"
proof -
  let ?f = "Op ''is_contiguous'' (\<lambda>a k s. (Inr (torch_function_subclass_enabled s), s))"
  note a = torch_function_fallthrough [of "\<lambda>f a k s. (Inl (Exn ''NotImplementedError'' ''''), s)"
      ?f "[Wrapper ex_wrapper]" None ex_state, THEN conjunct1, THEN spec, THEN spec, THEN mp]
  note b = torch_function_fallthrough [of "\<lambda>f a k s. (Inr True, s)"
      ?f "[Wrapper ex_wrapper]" None ex_state, THEN conjunct2, THEN conjunct1, THEN spec, THEN spec, THEN mp]
  have en: "torch_function_subclass_enabled ex_state" by (simp add: ex_state_eq)
  have a': "torch_function (\<lambda>f a k s. (Inl (Exn ''NotImplementedError'' ''''), s)) ?f
      [Wrapper ex_wrapper] None ex_state = (Inr False, ex_state)"
    using a [of "Exn ''NotImplementedError'' ''''" ex_state] en by simp
  have b': "torch_function (\<lambda>f a k s. (Inr True, s)) ?f
      [Wrapper ex_wrapper] None ex_state = (Inr True, ex_state)"
    using b [of True ex_state] by simp
  show ?thesis by (intro conjI a' en b')
qed

section \<open>Claims about the differentiable boundary\<close>

text \<open>
  Claim C8. For a wrapper \<open>w\<close> with values \<open>v\<close> and rank-1 offsets \<open>off\<close>, the forward of
  the differentiable extraction saves \<open>off\<close> in its context and returns \<open>v\<close> itself, and
  \<open>values()\<close> does so on a fresh context. The paired backward, handed a dense gradient
  \<open>g\<close> of rank at least 1, returns a newly allocated wrapper whose values are \<open>g\<close> and
  whose offsets are the saved \<open>off\<close>, with the ragged symbol that the registry gives for
  \<open>off\<close>.
\<close>

theorem differentiable_values_boundary:
  assumes vals: "nt_values w = Some v" and offs: "nt_offsets w = Some off"
    and shp: "t_shape off = [n]" and st: "t_stride g \<noteq> []"
  shows "NestedTensor_values w = (Inr v, \<lparr>saved_tensors = [off]\<rparr>) \<and>
     DifferentiableValues_forward ctx w = (Inr v, ctx\<lparr>saved_tensors := [off]\<rparr>) \<and>
     (\<exists>gw s'. DifferentiableValues_backward (snd (NestedTensor_values w)) (Plain g) s = (Inr gw, s') \<and>
        nt_values gw = Some g \<and> nt_offsets gw = Some off \<and> nt_id gw = next_tid s \<and>
        nt_size gw = Some (symint_sub n 1 #
          (case tensor_symint_registry s (t_id off) of
             None \<Rightarrow> Singleton (tensor_id_counter s) 1 | Some y \<Rightarrow> y) #
          drop 1 (t_shape g)))"
proof -
  have fwd: "\<And>c. DifferentiableValues_forward c w = (Inr v, c\<lparr>saved_tensors := [off]\<rparr>)"
    by (simp add: DifferentiableValues_forward_def NestedTensor_offsets_def vals offs Let_def)
  have nv: "NestedTensor_values w = (Inr v, \<lparr>saved_tensors = [off]\<rparr>)"
    unfolding NestedTensor_values_def fwd by simp
  obtain st0 rest where st': "t_stride g = st0 # rest" using st by (cases "t_stride g") simp_all
  let ?symb = "case tensor_symint_registry s (t_id off) of
             None \<Rightarrow> Singleton (tensor_id_counter s) 1 | Some y \<Rightarrow> y"
  define s1 where "s1 = snd (get_tensor_symint off 1 s)"
  have g: "get_tensor_symint off 1 s = (Inr ?symb, s1)"
  proof (cases "tensor_symint_registry s (t_id off)")
    case None
    show ?thesis unfolding s1_def get_tensor_symint_miss [OF None] using None by simp
  next
    case (Some y)
    show ?thesis unfolding s1_def get_tensor_symint_hit [OF Some] using Some by simp
  qed
  have ng: "(None :: bool option) = Some True \<longrightarrow> is_floating_point (t_dtype g)" by simp
  let ?gw = "\<lparr>nt_id = next_tid s,
           nt_requires_grad = (case (None :: bool option) of None \<Rightarrow> False | Some b \<Rightarrow> b),
           nt_dtype = t_dtype g, nt_device = t_device g,
           nt_size = Some (symint_sub n 1 # ?symb # drop 1 (t_shape g)),
           nt_strides = Some (symint_mul ?symb st0 # st0 # rest),
           nt_ragged_idx = Some 1, nt_values = Some g, nt_offsets = Some off\<rparr>"
  have c: "NestedTensor (Plain g) (Some off) None s = (Inr ?gw, s1\<lparr>next_tid := Suc (next_tid s)\<rparr>)"
    by (rule NestedTensor_success [OF shp st' g ng])
  have bwd: "DifferentiableValues_backward (snd (NestedTensor_values w)) (Plain g) s =
      (Inr ?gw, s1\<lparr>next_tid := Suc (next_tid s)\<rparr>)"
    unfolding nv DifferentiableValues_backward_def c [symmetric] by simp
  have f: "nt_values ?gw = Some g" "nt_offsets ?gw = Some off" "nt_id ?gw = next_tid s"
    "nt_size ?gw = Some (symint_sub n 1 # ?symb # drop 1 (t_shape g))"
    by simp_all
  have ex: "\<exists>gw s'. DifferentiableValues_backward (snd (NestedTensor_values w)) (Plain g) s = (Inr gw, s') \<and>
        nt_values gw = Some g \<and> nt_offsets gw = Some off \<and> nt_id gw = next_tid s \<and>
        nt_size gw = Some (symint_sub n 1 # ?symb # drop 1 (t_shape g))"
    by (rule exI [of _ ?gw], rule exI [of _ "s1\<lparr>next_tid := Suc (next_tid s)\<rparr>"])
       (intro conjI bwd f)
  show ?thesis by (intro conjI nv fwd ex)
qed

text \<open>
  C8 on the example wrapper: the gradient wrapper shares the offsets and has the same
  logical shape as the wrapper it is the gradient of.
\<close>

theorem differentiable_values_boundary_witness:
  "nt_values ex_wrapper = Some ex_values \<and> nt_offsets ex_wrapper = Some ex_offsets \<and>
   t_shape ex_offsets = [IntVal 3] \<and> t_stride ex_grad \<noteq> [] \<and>
   NestedTensor_values ex_wrapper = (Inr ex_values, \<lparr>saved_tensors = [ex_offsets]\<rparr>) \<and>
   (\<exists>gw s'. DifferentiableValues_backward (snd (NestedTensor_values ex_wrapper)) (Plain ex_grad)
        ex_state_built = (Inr gw, s') \<and>
      nt_values gw = Some ex_grad \<and> nt_offsets gw = Some ex_offsets \<and>
      nt_size gw = Some [IntVal 2, Singleton 1 1, IntVal 4] \<and>
      nt_size gw = nt_size ex_wrapper)"
proof -
  have h1: "nt_values ex_wrapper = Some ex_values" by (simp add: ex_wrapper_def)
  have h2: "nt_offsets ex_wrapper = Some ex_offsets" by (simp add: ex_wrapper_def)
  have h3: "t_shape ex_offsets = [IntVal 3]" by (simp add: ex_offsets_def)
  have h4: "t_stride ex_grad \<noteq> []" by (simp add: ex_grad_def ex_values_def)
  note t = differentiable_values_boundary [OF h1 h2 h3 h4, of "\<lparr>saved_tensors = []\<rparr>" ex_state_built]
  have reg: "tensor_symint_registry ex_state_built (t_id ex_offsets) = Some (Singleton 1 1)"
    by (simp add: ex_state_built_eq ex_offsets_def)
  obtain gw s' where b: "DifferentiableValues_backward (snd (NestedTensor_values ex_wrapper)) (Plain ex_grad)
        ex_state_built = (Inr gw, s')"
    and b1: "nt_values gw = Some ex_grad" and b2: "nt_offsets gw = Some ex_offsets"
    and b3: "nt_size gw = Some (symint_sub (IntVal 3) 1 #
          (case tensor_symint_registry ex_state_built (t_id ex_offsets) of
             None \<Rightarrow> Singleton (tensor_id_counter ex_state_built) 1 | Some y \<Rightarrow> y) #
          drop 1 (t_shape ex_grad))"
    using t [THEN conjunct2, THEN conjunct2] by (elim exE conjE)
  have b3': "nt_size gw = Some [IntVal 2, Singleton 1 1, IntVal 4]"
    unfolding b3 reg by (simp add: ex_grad_def ex_values_def symint_sub_def)
  have b4: "nt_size gw = nt_size ex_wrapper" unfolding b3' by (simp add: ex_wrapper_def)
  have ex: "\<exists>gw s'. DifferentiableValues_backward (snd (NestedTensor_values ex_wrapper)) (Plain ex_grad)
        ex_state_built = (Inr gw, s') \<and>
      nt_values gw = Some ex_grad \<and> nt_offsets gw = Some ex_offsets \<and>
      nt_size gw = Some [IntVal 2, Singleton 1 1, IntVal 4] \<and>
      nt_size gw = nt_size ex_wrapper"
    by (rule exI [of _ gw], rule exI [of _ s']) (intro conjI b b1 b2 b3' b4)
  show ?thesis by (intro conjI h1 h2 h3 h4 t [THEN conjunct1] ex)
qed


section \<open>Claims about flatten and unflatten\<close>

lemma wrapper_invD:
  assumes "wrapper_inv s w"
  shows "\<exists>v off n st0 rest symb.
     nt_values w = Some v \<and> nt_offsets w = Some off \<and> t_shape off = [n] \<and>
     t_stride v = st0 # rest \<and> tensor_symint_registry s (t_id off) = Some symb \<and>
     nt_size w = Some (symint_sub n 1 # symb # drop 1 (t_shape v)) \<and>
     nt_strides w = Some (symint_mul symb st0 # st0 # rest) \<and>
     nt_ragged_idx w = Some 1 \<and> nt_dtype w = t_dtype v \<and> nt_device w = t_device v \<and>
     (nt_requires_grad w \<longrightarrow> is_floating_point (t_dtype v))"
proof -
  obtain v where v: "nt_values w = Some v"
    using assms by (cases "nt_values w") (simp_all add: wrapper_inv_def)
  obtain off where off: "nt_offsets w = Some off"
    using assms v by (cases "nt_offsets w") (simp_all add: wrapper_inv_def)
  have inv: "(case (t_shape off, t_stride v, tensor_symint_registry s (t_id off)) of
             ([n], stride0 # rest, Some symb) \<Rightarrow>
               nt_size w = Some (symint_sub n 1 # symb # drop 1 (t_shape v)) \<and>
               nt_strides w = Some (symint_mul symb stride0 # stride0 # rest) \<and>
               nt_ragged_idx w = Some 1 \<and>
               nt_dtype w = t_dtype v \<and> nt_device w = t_device v \<and>
               (if nt_requires_grad w then is_floating_point (t_dtype v) else True)
           | _ \<Rightarrow> False)"
    using assms by (simp add: wrapper_inv_def v off)
  obtain n where n: "t_shape off = [n]"
    using inv by (cases "t_shape off"; cases "tl (t_shape off)") (auto split: list.splits)
  obtain st0 rest where st: "t_stride v = st0 # rest"
    using inv n by (cases "t_stride v") simp_all
  obtain symb where reg: "tensor_symint_registry s (t_id off) = Some symb"
    using inv n st by (cases "tensor_symint_registry s (t_id off)") simp_all
  have rest: "nt_size w = Some (symint_sub n 1 # symb # drop 1 (t_shape v)) \<and>
     nt_strides w = Some (symint_mul symb st0 # st0 # rest) \<and>
     nt_ragged_idx w = Some 1 \<and> nt_dtype w = t_dtype v \<and> nt_device w = t_device v \<and>
     (nt_requires_grad w \<longrightarrow> is_floating_point (t_dtype v))"
    using inv by (simp add: n st reg split: if_splits)
  show ?thesis
    by (rule exI [of _ v], rule exI [of _ off], rule exI [of _ n], rule exI [of _ st0],
        rule exI [of _ rest], rule exI [of _ symb]) (intro conjI v off n st reg rest [THEN conjunct1]
        rest [THEN conjunct2, THEN conjunct1] rest [THEN conjunct2, THEN conjunct2, THEN conjunct1]
        rest [THEN conjunct2, THEN conjunct2, THEN conjunct2, THEN conjunct1]
        rest [THEN conjunct2, THEN conjunct2, THEN conjunct2, THEN conjunct2, THEN conjunct1]
        rest [THEN conjunct2, THEN conjunct2, THEN conjunct2, THEN conjunct2, THEN conjunct2])
qed

text \<open>The constructor establishes the invariant of the wrapper it returns.\<close>

lemma NestedTensor_wrapper_inv:
  assumes shp: "t_shape off = [n]" and st: "t_stride v \<noteq> []"
    and grad: "kw = Some True \<longrightarrow> is_floating_point (t_dtype v)"
  shows "\<exists>w s'. NestedTensor (Plain v) (Some off) kw s = (Inr w, s') \<and> wrapper_inv s' w"
proof -
  obtain st0 rest where st': "t_stride v = st0 # rest" using st by (cases "t_stride v") simp_all
  define symb where "symb = (case tensor_symint_registry s (t_id off) of
             None \<Rightarrow> Singleton (tensor_id_counter s) 1 | Some y \<Rightarrow> y)"
  define s1 where "s1 = snd (get_tensor_symint off 1 s)"
  note g = get_tensor_symint_resolved [of off 1 s, folded symb_def s1_def]
  let ?w = "\<lparr>nt_id = next_tid s,
           nt_requires_grad = (case kw of None \<Rightarrow> False | Some b \<Rightarrow> b),
           nt_dtype = t_dtype v, nt_device = t_device v,
           nt_size = Some (symint_sub n 1 # symb # drop 1 (t_shape v)),
           nt_strides = Some (symint_mul symb st0 # st0 # rest),
           nt_ragged_idx = Some 1, nt_values = Some v, nt_offsets = Some off\<rparr>"
  have c: "NestedTensor (Plain v) (Some off) kw s = (Inr ?w, s1\<lparr>next_tid := Suc (next_tid s)\<rparr>)"
    by (rule NestedTensor_success [OF shp st' g [THEN conjunct1] grad])
  have fl: "(case kw of None \<Rightarrow> False | Some b \<Rightarrow> b) \<longrightarrow> is_floating_point (t_dtype v)"
    using grad by (cases kw) auto
  have i: "wrapper_inv (s1\<lparr>next_tid := Suc (next_tid s)\<rparr>) ?w"
    using fl by (simp add: wrapper_inv_def shp st' g [THEN conjunct2])
  show ?thesis
    by (rule exI [of _ ?w], rule exI [of _ "s1\<lparr>next_tid := Suc (next_tid s)\<rparr>"])
       (intro conjI c i)
qed

lemma flatten_unflatten_inv:
  assumes "wrapper_inv s w"
  shows "flatten_unflatten w s = (Inr (w\<lparr>nt_id := next_tid s\<rparr>), s\<lparr>next_tid := Suc (next_tid s)\<rparr>)"
proof -
  obtain v off n st0 rest symb where
    v: "nt_values w = Some v" and off: "nt_offsets w = Some off" and n: "t_shape off = [n]"
    and st: "t_stride v = st0 # rest" and reg: "tensor_symint_registry s (t_id off) = Some symb"
    and sz: "nt_size w = Some (symint_sub n 1 # symb # drop 1 (t_shape v))"
    and str: "nt_strides w = Some (symint_mul symb st0 # st0 # rest)"
    and ri: "nt_ragged_idx w = Some 1" and dt: "nt_dtype w = t_dtype v"
    and dv: "nt_device w = t_device v"
    and gr: "nt_requires_grad w \<longrightarrow> is_floating_point (t_dtype v)"
    using wrapper_invD [OF assms] by (elim exE conjE)
  let ?ctx = "\<lparr>m_requires_grad = Some (nt_requires_grad w), m_ragged_size = Some symb\<rparr>"
  have fl: "tensor_flatten w = Inr ([''_values'', ''_offsets''], ?ctx)"
    by (simp add: tensor_flatten_def sz ri py_index_def)
  have inner: "inner_tensors_of w [''_values'', ''_offsets''] =
      Inr [(''_values'', v), (''_offsets'', off)]"
    by (simp add: nt_getattr_def v off)
  have same: "s\<lparr>tensor_symint_registry := (tensor_symint_registry s)(t_id off \<mapsto> symb)\<rparr> = s"
    using reg by (simp add: map_upd_triv)
  have g: "get_tensor_symint off 1 s = (Inr symb, s)" by (rule get_tensor_symint_hit [OF reg])
  have gr': "Some (nt_requires_grad w) = Some True \<longrightarrow> is_floating_point (t_dtype v)"
    using gr by simp
  let ?w' = "\<lparr>nt_id = next_tid s,
           nt_requires_grad = (case Some (nt_requires_grad w) of None \<Rightarrow> False | Some b \<Rightarrow> b),
           nt_dtype = t_dtype v, nt_device = t_device v,
           nt_size = Some (symint_sub n 1 # symb # drop 1 (t_shape v)),
           nt_strides = Some (symint_mul symb st0 # st0 # rest),
           nt_ragged_idx = Some 1, nt_values = Some v, nt_offsets = Some off\<rparr>"
  have c: "NestedTensor (Plain v) (Some off) (Some (nt_requires_grad w)) s =
      (Inr ?w', s\<lparr>next_tid := Suc (next_tid s)\<rparr>)"
    by (rule NestedTensor_success [OF n st g gr'])
  have un: "tensor_unflatten [(''_values'', v), (''_offsets'', off)] ?ctx s =
      (Inr ?w', s\<lparr>next_tid := Suc (next_tid s)\<rparr>)"
    unfolding tensor_unflatten_def by (simp add: same c)
  have eq: "?w' = w\<lparr>nt_id := next_tid s\<rparr>"
    by (rule nested.equality) (simp_all add: v off sz str ri dt dv)
  have un': "tensor_unflatten [(''_values'', v), (''_offsets'', off)] ?ctx s =
      (Inr (w\<lparr>nt_id := next_tid s\<rparr>), s\<lparr>next_tid := Suc (next_tid s)\<rparr>)"
    using un unfolding eq .
  show ?thesis
    unfolding flatten_unflatten_def fl by (simp add: inner un' del: inner_tensors_of.simps)
qed

lemma unflatten_registers:
  assumes n: "t_shape off = [n]" and st: "t_stride v \<noteq> []"
    and free: "has_free_symbols off \<or> has_free_symbols v"
    and grad: "rg \<longrightarrow> is_floating_point (t_dtype v)"
  shows "\<exists>w'. tensor_unflatten [(''_values'', v), (''_offsets'', off)]
            \<lparr>m_requires_grad = Some rg, m_ragged_size = Some rs\<rparr> s =
          (Inr w', s\<lparr>tensor_symint_registry := (tensor_symint_registry s)(t_id off \<mapsto> rs),
                    next_tid := Suc (next_tid s)\<rparr>) \<and>
        nt_size w' = Some (symint_sub n 1 # rs # drop 1 (t_shape v)) \<and>
        nt_values w' = Some v \<and> nt_offsets w' = Some off \<and> nt_requires_grad w' = rg"
proof -
  obtain st0 rest where st': "t_stride v = st0 # rest" using st by (cases "t_stride v") simp_all
  let ?s1 = "s\<lparr>tensor_symint_registry := (tensor_symint_registry s)(t_id off \<mapsto> rs)\<rparr>"
  have "tensor_symint_registry ?s1 (t_id off) = Some rs" by simp
  then have g: "get_tensor_symint off 1 ?s1 = (Inr rs, ?s1)" by (rule get_tensor_symint_hit)
  have grad': "Some rg = Some True \<longrightarrow> is_floating_point (t_dtype v)" using grad by simp
  let ?w' = "\<lparr>nt_id = next_tid ?s1,
           nt_requires_grad = (case Some rg of None \<Rightarrow> False | Some b \<Rightarrow> b),
           nt_dtype = t_dtype v, nt_device = t_device v,
           nt_size = Some (symint_sub n 1 # rs # drop 1 (t_shape v)),
           nt_strides = Some (symint_mul rs st0 # st0 # rest),
           nt_ragged_idx = Some 1, nt_values = Some v, nt_offsets = Some off\<rparr>"
  have c: "NestedTensor (Plain v) (Some off) (Some rg) ?s1 =
      (Inr ?w', ?s1\<lparr>next_tid := Suc (next_tid ?s1)\<rparr>)"
    by (rule NestedTensor_success [OF n st' g grad'])
  have un: "tensor_unflatten [(''_values'', v), (''_offsets'', off)]
            \<lparr>m_requires_grad = Some rg, m_ragged_size = Some rs\<rparr> s =
          (Inr ?w', s\<lparr>tensor_symint_registry := (tensor_symint_registry s)(t_id off \<mapsto> rs),
                    next_tid := Suc (next_tid s)\<rparr>)"
    unfolding tensor_unflatten_def using free by (simp add: c)
  have f: "nt_size ?w' = Some (symint_sub n 1 # rs # drop 1 (t_shape v))"
    "nt_values ?w' = Some v" "nt_offsets ?w' = Some off" "nt_requires_grad ?w' = rg"
    by simp_all
  show ?thesis by (rule exI [of _ ?w']) (intro conjI un f)
qed

lemma unflatten_plain:
  assumes "\<not> has_free_symbols off" and "\<not> has_free_symbols v"
  shows "tensor_unflatten [(''_values'', v), (''_offsets'', off)]
            \<lparr>m_requires_grad = Some rg, m_ragged_size = rs\<rparr> s =
         NestedTensor (Plain v) (Some off) (Some rg) s"
  unfolding tensor_unflatten_def using assms by simp

lemma NestedTensor_registry:
  "tensor_symint_registry (snd (NestedTensor (Plain v) (Some off) (Some rg) s)) (t_id off) =
     (case tensor_symint_registry s (t_id off) of
        None \<Rightarrow> (if (\<not> rg \<or> is_floating_point (t_dtype v)) \<and> length (t_shape off) = 1
                 then Some (Singleton (tensor_id_counter s) 1) else None)
      | Some y \<Rightarrow> Some y)"
  by (cases "tensor_symint_registry s (t_id off)"; cases "t_shape off"; cases "t_stride v";
      cases rg; cases "is_floating_point (t_dtype v)")
     (simp_all add: NestedTensor_def NestedTensor_new_def NestedTensor_init_def
        get_tensor_symint_def get_singleton_int_def py_index_def Let_def arg_dtype_def)

lemma ex_state_overwritten_eq:
  "ex_state_overwritten =
     \<lparr>tensor_id_counter = 2,
      tensor_symint_registry = [1 \<mapsto> Singleton 0 1, 4 \<mapsto> Singleton 0 1],
      next_tid = 22, torch_function_subclass_enabled = True\<rparr>"
  by (simp add: ex_state_overwritten_def ex_state_built_eq tensor_unflatten_def
      has_free_symbols_def ex_values_fake_def ex_values_def ex_offsets_def
      NestedTensor_def NestedTensor_new_def NestedTensor_init_def get_tensor_symint_def
      get_singleton_int_def py_index_def Let_def arg_dtype_def arg_device_def symint_mul_def
      symint_sub_def is_floating_point_def)

text \<open>
  Claim C9, as amended. For every constructed wrapper whose offsets buffer is registered
  to the wrapper's own ragged symbol (\<open>wrapper_inv\<close>, which the constructor establishes),
  flatten followed by unflatten returns a wrapper equal to the original in every attribute
  (the same values and offsets objects, \<open>requires_grad\<close>, shape with the same ragged
  symbol, stride), a new object only in its identity; counter and registry are as before,
  so no symbol is minted.

  Unflatten writes the context's ragged symbol into the registry for the offsets buffer
  when the offsets or the values carry free symbols, and the wrapper it builds from a
  rank-1 offsets buffer and values of rank at least 1 (floating point when
  \<open>requires_grad\<close> is set) then has that symbol. When neither carries free symbols,
  unflatten is the plain constructor call: it leaves a registered symbol alone, mints the
  next symbol for an unregistered rank-1 offsets buffer, and never consults the context's
  symbol.
\<close>

theorem flatten_unflatten_roundtrip:
  "(wrapper_inv s w \<longrightarrow>
      flatten_unflatten w s =
        (Inr (w\<lparr>nt_id := next_tid s\<rparr>), s\<lparr>next_tid := Suc (next_tid s)\<rparr>)) \<and>
   (t_shape off = [n] \<and> t_stride v \<noteq> [] \<and> (has_free_symbols off \<or> has_free_symbols v) \<and>
    (rg \<longrightarrow> is_floating_point (t_dtype v)) \<longrightarrow>
      (\<exists>w'. tensor_unflatten [(''_values'', v), (''_offsets'', off)]
            \<lparr>m_requires_grad = Some rg, m_ragged_size = Some rs\<rparr> s =
          (Inr w', s\<lparr>tensor_symint_registry := (tensor_symint_registry s)(t_id off \<mapsto> rs),
                    next_tid := Suc (next_tid s)\<rparr>) \<and>
        nt_size w' = Some (symint_sub n 1 # rs # drop 1 (t_shape v)) \<and>
        nt_values w' = Some v \<and> nt_offsets w' = Some off \<and> nt_requires_grad w' = rg)) \<and>
   (\<not> has_free_symbols off \<and> \<not> has_free_symbols v \<longrightarrow>
      tensor_unflatten [(''_values'', v), (''_offsets'', off)]
            \<lparr>m_requires_grad = Some rg, m_ragged_size = Some rs\<rparr> s =
         NestedTensor (Plain v) (Some off) (Some rg) s \<and>
      tensor_symint_registry (snd (tensor_unflatten [(''_values'', v), (''_offsets'', off)]
            \<lparr>m_requires_grad = Some rg, m_ragged_size = Some rs\<rparr> s)) (t_id off) =
        (case tensor_symint_registry s (t_id off) of
           None \<Rightarrow> (if (\<not> rg \<or> is_floating_point (t_dtype v)) \<and> length (t_shape off) = 1
                    then Some (Singleton (tensor_id_counter s) 1) else None)
         | Some y \<Rightarrow> Some y))"
proof (intro conjI impI)
  assume "wrapper_inv s w"
  then show "flatten_unflatten w s =
        (Inr (w\<lparr>nt_id := next_tid s\<rparr>), s\<lparr>next_tid := Suc (next_tid s)\<rparr>)"
    by (rule flatten_unflatten_inv)
next
  assume a: "t_shape off = [n] \<and> t_stride v \<noteq> [] \<and> (has_free_symbols off \<or> has_free_symbols v) \<and>
    (rg \<longrightarrow> is_floating_point (t_dtype v))"
  show "\<exists>w'. tensor_unflatten [(''_values'', v), (''_offsets'', off)]
            \<lparr>m_requires_grad = Some rg, m_ragged_size = Some rs\<rparr> s =
          (Inr w', s\<lparr>tensor_symint_registry := (tensor_symint_registry s)(t_id off \<mapsto> rs),
                    next_tid := Suc (next_tid s)\<rparr>) \<and>
        nt_size w' = Some (symint_sub n 1 # rs # drop 1 (t_shape v)) \<and>
        nt_values w' = Some v \<and> nt_offsets w' = Some off \<and> nt_requires_grad w' = rg"
    by (rule unflatten_registers [OF a [THEN conjunct1] a [THEN conjunct2, THEN conjunct1]
        a [THEN conjunct2, THEN conjunct2, THEN conjunct1]
        a [THEN conjunct2, THEN conjunct2, THEN conjunct2]])
next
  assume a: "\<not> has_free_symbols off \<and> \<not> has_free_symbols v"
  show p: "tensor_unflatten [(''_values'', v), (''_offsets'', off)]
            \<lparr>m_requires_grad = Some rg, m_ragged_size = Some rs\<rparr> s =
         NestedTensor (Plain v) (Some off) (Some rg) s"
    by (rule unflatten_plain [OF a [THEN conjunct1] a [THEN conjunct2]])
  show "tensor_symint_registry (snd (tensor_unflatten [(''_values'', v), (''_offsets'', off)]
            \<lparr>m_requires_grad = Some rg, m_ragged_size = Some rs\<rparr> s)) (t_id off) =
        (case tensor_symint_registry s (t_id off) of
           None \<Rightarrow> (if (\<not> rg \<or> is_floating_point (t_dtype v)) \<and> length (t_shape off) = 1
                    then Some (Singleton (tensor_id_counter s) 1) else None)
         | Some y \<Rightarrow> Some y)"
    unfolding p by (rule NestedTensor_registry)
qed

text \<open>
  The amended C9 on the examples: the round trip of the example wrapper; unflatten onto
  placeholders, which registers the context's symbol; and unflatten onto a concrete
  unregistered offsets object, which mints the next symbol instead.
\<close>

theorem flatten_unflatten_roundtrip_witness:
  "wrapper_inv ex_state_built ex_wrapper \<and>
   flatten_unflatten ex_wrapper ex_state_built =
     (Inr (ex_wrapper\<lparr>nt_id := 21\<rparr>), ex_state_built\<lparr>next_tid := 22\<rparr>) \<and>
   t_shape ex_offsets_fake = [SymVar ''s0''] \<and> t_stride ex_values_fake \<noteq> [] \<and>
   has_free_symbols ex_offsets_fake \<and>
   (\<exists>w'. tensor_unflatten [(''_values'', ex_values_fake), (''_offsets'', ex_offsets_fake)]
            \<lparr>m_requires_grad = Some False, m_ragged_size = Some (Singleton 1 1)\<rparr> ex_state_built =
          (Inr w', ex_state_built\<lparr>tensor_symint_registry :=
                      (tensor_symint_registry ex_state_built)(t_id ex_offsets_fake \<mapsto> Singleton 1 1),
                    next_tid := Suc (next_tid ex_state_built)\<rparr>) \<and>
        nt_size w' = Some [SymAdd (SymVar ''s0'') (IntVal (- 1)), Singleton 1 1, IntVal 4]) \<and>
   \<not> has_free_symbols ex_offsets_twin \<and> \<not> has_free_symbols ex_values \<and>
   tensor_symint_registry (snd (tensor_unflatten [(''_values'', ex_values), (''_offsets'', ex_offsets_twin)]
            \<lparr>m_requires_grad = Some False, m_ragged_size = Some (Singleton 1 1)\<rparr> ex_state_built))
       (t_id ex_offsets_twin) = Some (Singleton 2 1)"
proof -
  note t1 = flatten_unflatten_roundtrip [where s = ex_state_built and w = ex_wrapper, THEN conjunct1, THEN mp]
  note t2 = flatten_unflatten_roundtrip [where off = ex_offsets_fake and n = "SymVar ''s0''"
      and v = ex_values_fake and rg = False and rs = "Singleton 1 1" and s = ex_state_built, THEN conjunct2, THEN conjunct1, THEN mp]
  note t3 = flatten_unflatten_roundtrip [where off = ex_offsets_twin
      and v = ex_values and rg = False and rs = "Singleton 1 1" and s = ex_state_built, THEN conjunct2, THEN conjunct2, THEN mp, THEN conjunct2]
  have inv: "wrapper_inv ex_state_built ex_wrapper"
    by (simp add: wrapper_inv_def ex_wrapper_def ex_state_built_eq ex_offsets_def ex_values_def
        symint_mul_def symint_sub_def)
  have nid: "next_tid ex_state_built = 21" by (simp add: ex_state_built_eq)
  have rt: "flatten_unflatten ex_wrapper ex_state_built =
     (Inr (ex_wrapper\<lparr>nt_id := 21\<rparr>), ex_state_built\<lparr>next_tid := 22\<rparr>)"
    using t1 [OF inv] unfolding nid by simp
  have h1: "t_shape ex_offsets_fake = [SymVar ''s0'']" by (simp add: ex_offsets_fake_def ex_offsets_def)
  have h2: "t_stride ex_values_fake \<noteq> []" by (simp add: ex_values_fake_def ex_values_def)
  have h3: "has_free_symbols ex_offsets_fake"
    by (simp add: has_free_symbols_def ex_offsets_fake_def ex_offsets_def)
  have h3': "False \<longrightarrow> is_floating_point (t_dtype ex_values_fake)" by simp
  obtain w' where u: "tensor_unflatten [(''_values'', ex_values_fake), (''_offsets'', ex_offsets_fake)]
            \<lparr>m_requires_grad = Some False, m_ragged_size = Some (Singleton 1 1)\<rparr> ex_state_built =
          (Inr w', ex_state_built\<lparr>tensor_symint_registry :=
                      (tensor_symint_registry ex_state_built)(t_id ex_offsets_fake \<mapsto> Singleton 1 1),
                    next_tid := Suc (next_tid ex_state_built)\<rparr>)"
    and sz: "nt_size w' = Some (symint_sub (SymVar ''s0'') 1 # Singleton 1 1 # drop 1 (t_shape ex_values_fake))"
    using t2 [OF conjI [OF h1 conjI [OF h2 conjI [OF disjI1 [OF h3] h3']]]] by (elim exE conjE)
  have sz': "nt_size w' = Some [SymAdd (SymVar ''s0'') (IntVal (- 1)), Singleton 1 1, IntVal 4]"
    unfolding sz by (simp add: ex_values_fake_def ex_values_def symint_sub_def)
  have ex: "\<exists>w'. tensor_unflatten [(''_values'', ex_values_fake), (''_offsets'', ex_offsets_fake)]
            \<lparr>m_requires_grad = Some False, m_ragged_size = Some (Singleton 1 1)\<rparr> ex_state_built =
          (Inr w', ex_state_built\<lparr>tensor_symint_registry :=
                      (tensor_symint_registry ex_state_built)(t_id ex_offsets_fake \<mapsto> Singleton 1 1),
                    next_tid := Suc (next_tid ex_state_built)\<rparr>) \<and>
        nt_size w' = Some [SymAdd (SymVar ''s0'') (IntVal (- 1)), Singleton 1 1, IntVal 4]"
    by (rule exI [of _ w']) (intro conjI u sz')
  have h4: "\<not> has_free_symbols ex_offsets_twin"
    by (simp add: has_free_symbols_def ex_offsets_twin_def ex_offsets_def)
  have h5: "\<not> has_free_symbols ex_values" by (simp add: has_free_symbols_def ex_values_def)
  have reg: "tensor_symint_registry (snd (tensor_unflatten [(''_values'', ex_values), (''_offsets'', ex_offsets_twin)]
            \<lparr>m_requires_grad = Some False, m_ragged_size = Some (Singleton 1 1)\<rparr> ex_state_built))
       (t_id ex_offsets_twin) = Some (Singleton 2 1)"
    unfolding t3 [OF conjI [OF h4 h5]]
    by (simp add: ex_state_built_eq ex_offsets_twin_def ex_offsets_def)
  show ?thesis by (intro conjI inv rt h1 h2 h3 ex h4 h5 reg)
qed

text \<open>
  Claim C9 as stated fails for a wrapper whose offsets buffer was since registered to
  another symbol. The example wrapper was constructed with the ragged symbol
  \<open>Singleton 1 1\<close>. An unflatten that received placeholder values over the same offsets
  object, with the symbol \<open>Singleton 0 1\<close> in its context, has overwritten the registry
  entry of that offsets object. Flatten followed by unflatten of the example wrapper then
  returns a wrapper with the same values and offsets objects but with the ragged symbol
  \<open>Singleton 0 1\<close> in its shape and stride: the symbol association is not reproduced.
\<close>

theorem roundtrip_symbol_counterexample:
  "fst (NestedTensor (Plain ex_values) (Some ex_offsets) None ex_state) = Inr ex_wrapper \<and>
   nt_offsets ex_wrapper = Some ex_offsets \<and>
   nt_size ex_wrapper = Some [IntVal 2, Singleton 1 1, IntVal 4] \<and>
   tensor_symint_registry ex_state_built (t_id ex_offsets) = Some (Singleton 1 1) \<and>
   has_free_symbols ex_values_fake \<and>
   tensor_symint_registry ex_state_overwritten (t_id ex_offsets) = Some (Singleton 0 1) \<and>
   tensor_flatten ex_wrapper = Inr ([''_values'', ''_offsets''],
      \<lparr>m_requires_grad = Some False, m_ragged_size = Some (Singleton 1 1)\<rparr>) \<and>
   fst (flatten_unflatten ex_wrapper ex_state_overwritten) =
     Inr (ex_wrapper\<lparr>nt_id := 22, nt_size := Some [IntVal 2, Singleton 0 1, IntVal 4],
                     nt_strides := Some [Singleton 0 4, IntVal 4, IntVal 1]\<rparr>) \<and>
   Some [IntVal 2, Singleton 0 1, IntVal 4] \<noteq> nt_size ex_wrapper \<and>
   \<not> wrapper_inv ex_state_overwritten ex_wrapper"
  by (simp add: ex_wrapper_built)
     (simp add: ex_state_overwritten_eq ex_state_built_eq ex_wrapper_def ex_values_def
      ex_offsets_def ex_values_fake_def has_free_symbols_def wrapper_inv_def
      flatten_unflatten_def tensor_flatten_def tensor_unflatten_def nt_getattr_def
      NestedTensor_def NestedTensor_new_def NestedTensor_init_def get_tensor_symint_def
      get_singleton_int_def py_index_def Let_def arg_dtype_def arg_device_def symint_mul_def
      symint_sub_def is_floating_point_def)


end
